theory Spec2Isabelle
  imports Main "HOL-Library.AList" "HOL-Library.Sublist" "HOL-Library.Word"
begin

section \<open>Python values, exceptions and string operations\<close>

text \<open>
  The module \<^verbatim>\<open>osm_fieldwork/make_data_extract.py\<close> is modelled function by function.
  An exception of the Python code is a value \<open>Inl e\<close> of a sum type; a dictionary is an
  association list in insertion order, assigned to with \<open>AList.update\<close> (an existing key
  keeps its place, a new key goes to the end, as in Python).
\<close>

datatype error =
    KeyError | IndexError | TypeError | ValueError | AttributeError
  | UnboundLocalError | ConnectionError | BadZipFile | DatabaseError string

type_synonym bytes = "8 word list"

text \<open>The apostrophe and the double quote, which the source writes inside its literals.\<close>

definition apos :: string where
  "apos = [CHR 0x27]"

definition dquote :: string where
  "dquote = [CHR 0x22]"

text \<open>\<^verbatim>\<open>s[:-n]\<close> for a positive literal \<open>n\<close>: everything but the last \<open>n\<close> characters
  (the empty string when \<open>s\<close> is shorter).\<close>

definition drop_last :: "nat \<Rightarrow> string \<Rightarrow> string" where
  "drop_last n s = take (length s - n) s"

text \<open>\<^verbatim>\<open>s.find(sub)\<close>: the lowest index at which \<open>sub\<close> occurs, or \<open>-1\<close>.\<close>

fun find_from :: "string \<Rightarrow> string \<Rightarrow> nat \<Rightarrow> int" where
  "find_from sub [] i = (if sub = [] then int i else - 1)"
| "find_from sub (c # cs) i =
     (if prefix sub (c # cs) then int i else find_from sub cs (Suc i))"

definition str_find :: "string \<Rightarrow> string \<Rightarrow> int" where
  "str_find s sub = find_from sub s 0"

text \<open>\<^verbatim>\<open>s.replace(old, new)\<close>: every non-overlapping occurrence, from the left.\<close>

function str_replace :: "string \<Rightarrow> string \<Rightarrow> string \<Rightarrow> string" where
  "str_replace old new s =
     (if old = [] then new @ concat (map (\<lambda>c. c # new) s)
      else if s = [] then []
      else if prefix old s then new @ str_replace old new (drop (length old) s)
      else hd s # str_replace old new (tl s))"
  by pat_completeness auto
termination
  by (relation "measure (\<lambda>(old, new, s). length s)") (auto simp: neq_Nil_conv)

text \<open>\<^verbatim>\<open>s.split(sep)\<close> for a one-character separator: the fields between the
  separators, empty fields included; never an empty list.\<close>

fun str_split :: "char \<Rightarrow> string \<Rightarrow> string list" where
  "str_split sep [] = [[]]"
| "str_split sep (c # cs) =
     (if c = sep then [] # str_split sep cs
      else (case str_split sep cs of
              [] \<Rightarrow> [[c]]
            | w # ws \<Rightarrow> (c # w) # ws))"

section \<open>The category schema\<close>

text \<open>
  \<open>data\<close> is what \<^verbatim>\<open>yaml.load\<close> returns for the category's data model: a mapping
  with the keys \<^verbatim>\<open>from\<close>, \<^verbatim>\<open>select\<close> and \<^verbatim>\<open>where\<close>. A key that is read with
  \<^verbatim>\<open>data[...]\<close> is an option here, and reading \<open>None\<close> is the KeyError.
  \<^verbatim>\<open>select\<close> is a mapping whose entry \<^verbatim>\<open>tags\<close> is a list of tag names and whose other
  entries are column expressions; \<^verbatim>\<open>where\<close> holds the list \<^verbatim>\<open>tags\<close> of mappings from a
  tag name to a predicate string.
\<close>

datatype select_value = SelStr string | SelList "string list"

record where_clause =
  where_tags :: "(string \<times> string) list list"

record data_model =
  data_from :: "string list option"
  data_select :: "(string \<times> select_value) list option"
  data_where :: "where_clause option"

text \<open>Iterating over a value (\<^verbatim>\<open>for tag in select['tags']\<close>): the elements of a list,
  the characters of a string.\<close>

fun iterate :: "select_value \<Rightarrow> string list" where
  "iterate (SelList xs) = xs"
| "iterate (SelStr s) = map (\<lambda>c. [c]) s"

text \<open>Formatting a value inside an f-string is \<^verbatim>\<open>str\<close>: a string is itself, a list is
  its \<^verbatim>\<open>repr\<close>, which is Python's and is taken as the parameter \<open>repr\<close>.\<close>

fun py_str :: "(string list \<Rightarrow> string) \<Rightarrow> select_value \<Rightarrow> string" where
  "py_str repr (SelStr s) = s"
| "py_str repr (SelList xs) = repr xs"

section \<open>DatabaseAccess.createSQL\<close>

text \<open>Lines 136-137: one projection per selected tag; \<^verbatim>\<open>select[tag]\<close> raises KeyError
  for a tag that has no entry.\<close>

fun select_loop ::
  "(string list \<Rightarrow> string) \<Rightarrow> (string \<times> select_value) list \<Rightarrow> string list \<Rightarrow> string
     \<Rightarrow> error + string" where
  "select_loop repr select [] query = Inr query"
| "select_loop repr select (tag # rest) query =
     (case map_of select tag of
        None \<Rightarrow> Inl KeyError
      | Some v \<Rightarrow>
          select_loop repr select rest
            (query @ '' '' @ py_str repr v @ '' AS '' @ tag @ '', ''))"

text \<open>Lines 132-140: the SELECT clause.\<close>

definition select_clause ::
  "(string list \<Rightarrow> string) \<Rightarrow> (string \<times> select_value) list \<Rightarrow> error + string" where
  "select_clause repr select =
     (case map_of select ''tags'' of
        Some v \<Rightarrow>
          (case select_loop repr select (iterate v) ''SELECT '' of
             Inl e \<Rightarrow> Inl e
           | Inr query \<Rightarrow> Inr (query @ ''osm_id AS id, ST_AsEWKT(ST_Centroid(geom)) ''))
      | None \<Rightarrow> Inr (''SELECT '' @ ''osm_id AS id, ST_AsEWKT(ST_Centroid(geom)), tags ''))"

text \<open>Lines 147-149: one condition, followed by \<^verbatim>\<open>OR\<close>, per tag whose value is
  \<^verbatim>\<open>"not null"\<close>.\<close>

fun where_loop :: "(string \<times> string) list \<Rightarrow> string \<Rightarrow> string" where
  "where_loop [] query = query"
| "where_loop ((tag, val) # rest) query =
     where_loop rest
       (if val = ''not null''
        then query @ ''tags->>'' @ apos @ tag @ apos @ '' IS NOT NULL OR ''
        else query)"

text \<open>Lines 132-150: the statement for one table. \<^verbatim>\<open>where = data['where']\<close> on line 142
  raises KeyError before the test \<^verbatim>\<open>'where' in data\<close> on line 144 is reached; the test
  is kept as the source has it. Line 150 cuts the last four characters, whatever they are.\<close>

definition createSQL_query ::
  "(string list \<Rightarrow> string) \<Rightarrow> data_model \<Rightarrow> string \<Rightarrow> error + string" where
  "createSQL_query repr data table =
     (case data_select data of
        None \<Rightarrow> Inl KeyError
      | Some select \<Rightarrow>
          (case select_clause repr select of
             Inl e \<Rightarrow> Inl e
           | Inr query \<Rightarrow>
               (case data_where data of
                  None \<Rightarrow> Inl KeyError
                | Some w \<Rightarrow>
                    if data_where data \<noteq> None then
                      (case where_tags w of
                         [] \<Rightarrow> Inl IndexError
                       | tags # _ \<Rightarrow>
                           Inr (drop_last 4
                             (where_loop tags
                                (query @ '' FROM '' @ table @ '' '' @ '' WHERE ''))))
                    else Inr (drop_last 4 (query @ '' FROM '' @ table @ '' '')))))"

fun createSQL_loop ::
  "(string list \<Rightarrow> string) \<Rightarrow> data_model \<Rightarrow> string list \<Rightarrow> string list
     \<Rightarrow> error + string list" where
  "createSQL_loop repr data [] sql = Inr sql"
| "createSQL_loop repr data (table # rest) sql =
     (case createSQL_query repr data table of
        Inl e \<Rightarrow> Inl e
      | Inr query \<Rightarrow> createSQL_loop repr data rest (sql @ [query]))"

definition createSQL ::
  "(string list \<Rightarrow> string) \<Rightarrow> data_model \<Rightarrow> error + string list" where
  "createSQL repr data =
     (case data_from data of
        None \<Rightarrow> Inl KeyError
      | Some tables \<Rightarrow> createSQL_loop repr data tables [])"

section \<open>DatabaseAccess.createJson\<close>

text \<open>A JSON document; the number type is left open (Python floats in the boundary's
  coordinates). \<^verbatim>\<open>json.dumps\<close> is Python's and is taken as the parameter \<open>dumps\<close>.\<close>

datatype 'n json =
    JNull | JBool bool | JNum 'n | JStr string
  | JList "'n json list" | JObj "(string \<times> 'n json) list"

text \<open>Lines 104-106: \<^verbatim>\<open>columns[tag] = []\<close> for each tag whose value is
  \<^verbatim>\<open>"not null"\<close>.\<close>

fun columns_loop ::
  "(string \<times> string) list \<Rightarrow> (string \<times> 'n json) list \<Rightarrow> (string \<times> 'n json) list" where
  "columns_loop [] columns = columns"
| "columns_loop ((tag, val) # rest) columns =
     columns_loop rest
       (if val = ''not null'' then AList.update tag (JList []) columns else columns)"

text \<open>Lines 111-118: the branch taken for one table name; \<^verbatim>\<open>relations\<close> passes, and
  a name that no branch tests is skipped as well.\<close>

definition append_table :: "string \<Rightarrow> string list \<Rightarrow> string list" where
  "append_table table tables =
     (if table = ''nodes'' then tables @ [''point'']
      else if table = ''ways_poly'' then tables @ [''polygon'']
      else if table = ''ways_line'' then tables @ [''linestring'']
      else if table = ''relations'' then tables
      else tables)"

text \<open>Lines 109-118: the loop over \<^verbatim>\<open>data['from']\<close>.\<close>

fun tables_loop :: "string list \<Rightarrow> string list \<Rightarrow> string list" where
  "tables_loop [] tables = tables"
| "tables_loop (table # rest) tables = tables_loop rest (append_table table tables)"

text \<open>Lines 97-120: the dictionary \<^verbatim>\<open>features\<close>, its keys in the order of assignment.\<close>

definition createJson_features :: "data_model \<Rightarrow> 'n json \<Rightarrow> error + 'n json" where
  "createJson_features data boundary =
     (case data_where data of
        None \<Rightarrow> Inl KeyError
      | Some w \<Rightarrow>
          (case where_tags w of
             [] \<Rightarrow> Inl IndexError
           | tags # _ \<Rightarrow>
               (case data_from data of
                  None \<Rightarrow> Inl KeyError
                | Some from_tables \<Rightarrow>
                    Inr (JObj
                      [(''geometry'', boundary),
                       (''filters'',
                          JObj [(''tags'',
                            JObj [(''all_geometry'',
                              JObj [(''join_or'', JObj (columns_loop tags []))])])]),
                       (''geometryType'', JList (map JStr (tables_loop from_tables []))),
                       (''centroid'', JStr ''true'')]))))"

definition createJson ::
  "('n json \<Rightarrow> string) \<Rightarrow> data_model \<Rightarrow> 'n json \<Rightarrow> error + string" where
  "createJson dumps data boundary =
     (case createJson_features data boundary of
        Inl e \<Rightarrow> Inl e
      | Inr features \<Rightarrow> Inr (dumps features))"

text \<open>Reading a key of a JSON object.\<close>

fun json_get :: "string \<Rightarrow> 'n json \<Rightarrow> 'n json option" where
  "json_get key (JObj kvs) = map_of kvs key"
| "json_get key _ = None"

section \<open>DatabaseAccess.queryLocal\<close>

text \<open>The values of a result row and of a feature's properties.\<close>

datatype pyval =
    PNone | PInt int | PStr string | PDict "(string \<times> pyval) list"

datatype 'c geometry =
    Point 'c 'c | LineString "('c \<times> 'c) list" | Polygon "('c \<times> 'c) list list"

text \<open>A geojson Feature. Its constructor keeps the geometry it is given when that is
  true in Python's sense and stores \<open>None\<close> otherwise: a geojson Point is always kept, a
  shapely geometry is kept unless it is empty.\<close>

record 'c feature =
  geometry :: "'c geometry option"
  properties :: "(string \<times> pyval) list"

text \<open>
  The database session is the environment's: \<open>execute\<close> runs a statement on the
  cursor's state and raises or gives the new state, \<open>fetchall\<close> reads the rows of the last
  statement. \<open>py_float\<close> is Python's \<^verbatim>\<open>float\<close> on a string (\<open>None\<close>: ValueError); the
  coordinate type \<open>'c\<close> is left open. \<open>geo_round\<close> is what geojson's Point does to each
  coordinate it is given: it rounds it to the library's precision of six decimals.
\<close>

record ('cur, 'c) env =
  execute :: "'cur \<Rightarrow> string \<Rightarrow> error + 'cur"
  fetchall :: "'cur \<Rightarrow> pyval list list"
  py_float :: "string \<Rightarrow> 'c option"
  geo_round :: "'c \<Rightarrow> 'c"

text \<open>Lines 154 and 156: the statements that create the two views.\<close>

definition ways_view_sql :: "string \<Rightarrow> string" where
  "ways_view_sql wkt =
     ''DROP VIEW IF EXISTS ways_view;CREATE TEMP VIEW ways_view AS SELECT * FROM ways_poly WHERE ST_CONTAINS(ST_GeomFromEWKT(''
     @ apos @ ''SRID=4326;'' @ wkt @ apos @ ''), geom)''"

definition nodes_view_sql :: "string \<Rightarrow> string" where
  "nodes_view_sql wkt =
     ''DROP VIEW IF EXISTS nodes_view;CREATE TEMP VIEW nodes_view AS SELECT * FROM nodes WHERE ST_CONTAINS(ST_GeomFromEWKT(''
     @ apos @ ''SRID=4326;'' @ wkt @ apos @ ''), geom)''"

text \<open>Lines 162-165: the statement rewritten to read a view.\<close>

definition rewrite_query :: "string \<Rightarrow> string" where
  "rewrite_query query =
     (if str_find query '' ways_poly '' > 0 then str_replace ''ways_poly'' ''ways_view'' query
      else if str_find query '' nodes '' > 0 then str_replace ''nodes'' ''nodes_view'' query
      else query)"

text \<open>Lines 172-182: the feature of one row. Slicing a value that is not a string, and
  assigning a key of a value that is not a dictionary, are TypeErrors; a row or a
  coordinate list that is too short is an IndexError.\<close>

definition row_feature ::
  "(string \<Rightarrow> 'c option) \<Rightarrow> ('c \<Rightarrow> 'c) \<Rightarrow> pyval list \<Rightarrow> error + 'c feature" where
  "row_feature float rnd item =
     (if length item < 2 then Inl IndexError
      else
        (case item ! 1 of
           PStr s \<Rightarrow>
             (let gps = str_split (CHR '' '') (drop 16 (drop_last 1 s)) in
                (case float (gps ! 0) of
                   None \<Rightarrow> Inl ValueError
                 | Some x \<Rightarrow>
                     (if length gps < 2 then Inl IndexError
                      else
                        (case float (gps ! 1) of
                           None \<Rightarrow> Inl ValueError
                         | Some y \<Rightarrow>
                             (if length item < 3 then Inl IndexError
                              else
                                (case item ! 2 of
                                   PDict tags0 \<Rightarrow>
                                     (let tags1 = AList.update ''id'' (item ! 1) tags0;
                                          tags2 =
                                            (case map_of tags1 ''name'' of
                                               Some name \<Rightarrow>
                                                 AList.update ''label'' name
                                                   (AList.update ''title'' name tags1)
                                             | None \<Rightarrow>
                                                 AList.update ''label'' PNone
                                                   (AList.update ''title'' PNone tags1))
                                      in Inr \<lparr>geometry = Some (Point (rnd x) (rnd y)),
                                              properties = tags2\<rparr>)
                                 | _ \<Rightarrow> Inl TypeError))))))
         | _ \<Rightarrow> Inl TypeError))"

fun rows_loop ::
  "(string \<Rightarrow> 'c option) \<Rightarrow> ('c \<Rightarrow> 'c) \<Rightarrow> pyval list list \<Rightarrow> 'c feature list
     \<Rightarrow> error + 'c feature list" where
  "rows_loop float rnd [] features = Inr features"
| "rows_loop float rnd (item # rest) features =
     (case row_feature float rnd item of
        Inl e \<Rightarrow> Inl e
      | Inr f \<Rightarrow> rows_loop float rnd rest (features @ [f]))"

text \<open>Lines 153-183. \<open>dbcursor\<close> is the attribute \<^verbatim>\<open>self.dbcursor\<close>; calling
  \<^verbatim>\<open>execute\<close> on \<open>None\<close> is an AttributeError. The result carries the cursor's new
  state.\<close>

definition queryLocal ::
  "('cur, 'c) env \<Rightarrow> 'cur option \<Rightarrow> string \<Rightarrow> string \<Rightarrow> error + ('cur \<times> 'c feature list)" where
  "queryLocal env dbcursor query wkt =
     (case dbcursor of
        None \<Rightarrow> Inl AttributeError
      | Some cur0 \<Rightarrow>
          (case execute env cur0 (ways_view_sql wkt) of
             Inl e \<Rightarrow> Inl e
           | Inr cur1 \<Rightarrow>
               (case execute env cur1 (nodes_view_sql wkt) of
                  Inl e \<Rightarrow> Inl e
                | Inr cur2 \<Rightarrow>
                    (case execute env cur2 (rewrite_query query) of
                       Inl e \<Rightarrow> Inl e
                     | Inr cur3 \<Rightarrow>
                         (case rows_loop (py_float env) (geo_round env) (fetchall env cur3) [] of
                            Inl e \<Rightarrow> Inl e
                          | Inr features \<Rightarrow> Inr (cur3, features))))))"

section \<open>DatabaseAccess.__init__\<close>

text \<open>
  The attributes of \<^verbatim>\<open>self\<close> that the methods read. \<^verbatim>\<open>session\<close>, \<^verbatim>\<open>url\<close> and
  \<^verbatim>\<open>headers\<close> are assigned together, on line 73-75 only, so \<open>url\<close> stands for the three:
  \<open>None\<close> when they were never assigned, and reading them then is an AttributeError.
\<close>

record ('conn, 'cur) DatabaseAccess =
  dbshell :: "'conn option"
  dbcursor :: "'cur option"
  url :: "string option"

text \<open>Lines 64-90. \<open>connect\<close> is \<^verbatim>\<open>psycopg2.connect\<close> and \<open>cursor\<close> the connection's
  \<^verbatim>\<open>cursor()\<close>; \<open>None\<close> is an exception, which line 89 catches and logs.
  \<^verbatim>\<open>"PG: dbname=" + dbname\<close> on line 78 is a TypeError when \<^verbatim>\<open>dbname\<close> is \<open>None\<close>.\<close>

definition DatabaseAccess_init ::
  "(string \<Rightarrow> 'conn option) \<Rightarrow> ('conn \<Rightarrow> 'cur option) \<Rightarrow> string option \<Rightarrow> string option
     \<Rightarrow> error + ('conn, 'cur) DatabaseAccess" where
  "DatabaseAccess_init connect cursor dbhost dbname =
     (if dbname = Some ''underpass'' then
        Inr \<lparr>dbshell = None, dbcursor = None,
             url = Some ''https://raw-data-api0.hotosm.org/v1''\<rparr>
      else case dbname of
        None \<Rightarrow> Inl TypeError
      | Some name \<Rightarrow>
          (let connect_string =
             (case dbhost of
                None \<Rightarrow> ''dbname='' @ name
              | Some host \<Rightarrow>
                  if host = ''localhost'' then ''dbname='' @ name
                  else ''host='' @ host @ '' dbname='' @ name)
           in case connect connect_string of
                None \<Rightarrow> Inr \<lparr>dbshell = None, dbcursor = None, url = None\<rparr>
              | Some conn \<Rightarrow>
                  Inr \<lparr>dbshell = Some conn, dbcursor = cursor conn, url = None\<rparr>))"

section \<open>DatabaseAccess.queryRemote\<close>

text \<open>
  What the client does to the world, in order: the requests it sends, the time it
  sleeps, the file it writes.
\<close>

datatype event =
    POST string string | GET string | SLEEP nat | EXTRACT string string

text \<open>
  The JSON body of a status response: the value under \<^verbatim>\<open>status\<close> and the value under
  \<^verbatim>\<open>result.download_url\<close>; \<open>None\<close> is a missing key, and reading it a KeyError.
\<close>

record status_json =
  status :: "string option"
  download_url :: "string option"

text \<open>
  The remote service: the \<^verbatim>\<open>task_id\<close> of the response to a POST of a body to a URL
  (\<open>None\<close>: no such key), the body of the \<open>n\<close>-th GET of a status URL, counted from 0,
  and the zip archive served at a download URL, as a map from entry names to contents
  (\<open>None\<close>: the body is not a zip archive).
\<close>

record server =
  snapshot :: "string \<Rightarrow> string \<Rightarrow> string option"
  task_status :: "string \<Rightarrow> nat \<Rightarrow> status_json"
  download :: "string \<Rightarrow> (string \<Rightarrow> bytes option) option"

text \<open>Lines 190-196: the poll loop, from the \<open>n\<close>-th poll on. It returns the number of
  polls made, the events so far and the last response, or the KeyError; a loop that never
  ends is \<open>None\<close>.\<close>

partial_function (option) poll ::
  "(nat \<Rightarrow> status_json) \<Rightarrow> string \<Rightarrow> nat \<Rightarrow> event list
     \<Rightarrow> (nat \<times> event list \<times> (error + status_json)) option" where
  "poll responses newurl n log =
     (case status (responses n) of
        None \<Rightarrow> Some (Suc n, log @ [GET newurl], Inl KeyError)
      | Some s \<Rightarrow>
          if s = ''PENDING'' then poll responses newurl (Suc n) (log @ [GET newurl, SLEEP 1])
          else if s = ''SUCCESS'' then Some (Suc n, log @ [GET newurl], Inr (responses n))
          else poll responses newurl (Suc n) (log @ [GET newurl]))"

text \<open>Lines 197-203: the download and the archive's entry.\<close>

definition fetch_export ::
  "server \<Rightarrow> event list \<Rightarrow> status_json \<Rightarrow> event list \<times> (error + bytes)" where
  "fetch_export srv log result =
     (case download_url result of
        None \<Rightarrow> (log, Inl KeyError)
      | Some zip_url \<Rightarrow>
          (case download srv zip_url of
             None \<Rightarrow> (log @ [GET zip_url], Inl BadZipFile)
           | Some zfp \<Rightarrow>
               (case zfp ''Export.geojson'' of
                  None \<Rightarrow> (log @ [GET zip_url], Inl KeyError)
                | Some content \<Rightarrow>
                    (log @ [GET zip_url, EXTRACT ''Export.geojson'' ''/tmp/''], Inr content))))"

text \<open>Lines 185-203.\<close>

definition queryRemote ::
  "server \<Rightarrow> ('conn, 'cur) DatabaseAccess \<Rightarrow> string \<Rightarrow> (event list \<times> (error + bytes)) option" where
  "queryRemote srv self query =
     (case url self of
        None \<Rightarrow> Some ([], Inl AttributeError)
      | Some base \<Rightarrow>
          (case snapshot srv (base @ ''/snapshot/'') query of
             None \<Rightarrow> Some ([POST (base @ ''/snapshot/'') query], Inl KeyError)
           | Some task_id \<Rightarrow>
               (case poll (task_status srv (base @ ''/tasks/status/'' @ task_id))
                       (base @ ''/tasks/status/'' @ task_id) 0
                       [POST (base @ ''/snapshot/'') query] of
                  None \<Rightarrow> None
                | Some (n, log, Inl e) \<Rightarrow> Some (log, Inl e)
                | Some (n, log, Inr result) \<Rightarrow> Some (fetch_export srv log result))))"

section \<open>PostgresClient.getFeatures\<close>

text \<open>What reaches the tag cleaner: a FeatureCollection on the local path, the bytes of
  the export on the remote path.\<close>

datatype 'c collection = FeatureCollection "'c feature list" | RawBytes bytes

text \<open>Lines 231-232: \<^verbatim>\<open>result\<close> is assigned anew for each statement; it is unbound
  (\<open>None\<close>) until the first one has run.\<close>

fun local_loop ::
  "('cur, 'c) env \<Rightarrow> 'cur option \<Rightarrow> string list \<Rightarrow> string \<Rightarrow> 'c feature list option
     \<Rightarrow> error + ('cur option \<times> 'c feature list option)" where
  "local_loop env cursor [] wkt result = Inr (cursor, result)"
| "local_loop env cursor (query # rest) wkt result =
     (case queryLocal env cursor query wkt of
        Inl e \<Rightarrow> Inl e
      | Inr (cur, features) \<Rightarrow> local_loop env (Some cur) rest wkt (Some features))"

text \<open>Lines 228-236, for the schema \<open>data\<close> of the category, the boundary \<open>poly\<close>
  and its shape's text \<open>wkt\<close> (lines 217-226 read them with geojson and shapely).\<close>

definition getFeatures_collection ::
  "('cur, 'c) env \<Rightarrow> (string list \<Rightarrow> string) \<Rightarrow> ('n json \<Rightarrow> string) \<Rightarrow> server
     \<Rightarrow> ('conn, 'cur) DatabaseAccess \<Rightarrow> data_model \<Rightarrow> 'n json \<Rightarrow> string
     \<Rightarrow> (event list \<times> (error + 'c collection)) option" where
  "getFeatures_collection env repr dumps srv self data poly wkt =
     (if dbshell self \<noteq> None then
        (case createSQL repr data of
           Inl e \<Rightarrow> Some ([], Inl e)
         | Inr sql \<Rightarrow>
             (case local_loop env (dbcursor self) sql wkt None of
                Inl e \<Rightarrow> Some ([], Inl e)
              | Inr (_, None) \<Rightarrow> Some ([], Inl UnboundLocalError)
              | Inr (_, Some result) \<Rightarrow> Some ([], Inr (FeatureCollection result))))
      else
        (case createJson dumps data poly of
           Inl e \<Rightarrow> Some ([], Inl e)
         | Inr request \<Rightarrow>
             (case queryRemote srv self request of
                None \<Rightarrow> None
              | Some (log, Inl e) \<Rightarrow> Some (log, Inl e)
              | Some (log, Inr content) \<Rightarrow> Some (log, Inr (RawBytes content)))))"

text \<open>Lines 213-249. \<open>cleanData\<close> is \<^verbatim>\<open>FilterData\<close>'s, of the module
  \<^verbatim>\<open>osm_fieldwork.filter_data\<close>, with the form of the category parsed.\<close>

definition PostgresClient_getFeatures ::
  "('c collection \<Rightarrow> error + 'out) \<Rightarrow> ('cur, 'c) env \<Rightarrow> (string list \<Rightarrow> string)
     \<Rightarrow> ('n json \<Rightarrow> string) \<Rightarrow> server \<Rightarrow> ('conn, 'cur) DatabaseAccess \<Rightarrow> data_model
     \<Rightarrow> 'n json \<Rightarrow> string \<Rightarrow> (event list \<times> (error + 'out)) option" where
  "PostgresClient_getFeatures cleanData env repr dumps srv self data poly wkt =
     (case getFeatures_collection env repr dumps srv self data poly wkt of
        None \<Rightarrow> None
      | Some (log, Inl e) \<Rightarrow> Some (log, Inl e)
      | Some (log, Inr collection) \<Rightarrow> Some (log, cleanData collection))"

section \<open>OverpassClient.getFeatures\<close>

text \<open>Lines 271-274: the loop over the two coordinate arrays. \<open>str\<close> is Python's
  formatting of a float inside an f-string.\<close>

function poly_loop ::
  "('c \<Rightarrow> string) \<Rightarrow> 'c list \<Rightarrow> 'c list \<Rightarrow> nat \<Rightarrow> string \<Rightarrow> string" where
  "poly_loop str lat lon index poly =
     (if index < length lat
      then poly_loop str lat lon (index + 1)
             (poly @ str (lon ! index) @ '' '' @ str (lat ! index) @ '' '')
      else poly)"
  by pat_completeness auto
termination
  by (relation "measure (\<lambda>(str, lat, lon, index, poly). length lat - index)") auto

text \<open>Lines 269-276. \<open>ring\<close> is \<^verbatim>\<open>wkt.exterior.coords\<close>, the \<open>(x, y)\<close> pairs of the
  boundary's exterior ring; \<^verbatim>\<open>coords.xy\<close> is the pair of the array of the \<open>x\<close> and the
  array of the \<open>y\<close>, which line 270 names \<^verbatim>\<open>lat\<close> and \<^verbatim>\<open>lon\<close> in this order.\<close>

definition overpass_query :: "('c \<Rightarrow> string) \<Rightarrow> ('c \<times> 'c) list \<Rightarrow> string" where
  "overpass_query str ring =
     (let lat = map fst ring;
          lon = map snd ring;
          poly = poly_loop str lat lon 0 []
      in ''[out:json];way['' @ dquote @ ''building'' @ dquote @ ''](poly:'' @ dquote
           @ drop_last 1 poly @ dquote @ '');(._;>;);out body geom;'')"

text \<open>A way of the Overpass result: its vertices and its tags.\<close>

record 'c vertex =
  vertex_lat :: 'c
  vertex_lon :: 'c

record 'c way =
  way_geometry :: "'c vertex list"
  way_tags :: "(string \<times> pyval) list"




section \<open>The specification's vocabulary and example inputs\<close>

text \<open>The condition that the specification writes \<^verbatim>\<open>tags->>'<tag>' IS NOT NULL\<close>.\<close>

definition not_null_condition :: "string \<Rightarrow> string" where
  "not_null_condition tag = ''tags->>'' @ apos @ tag @ apos @ '' IS NOT NULL''"

text \<open>The specification's translation of source tables to geometry types; a table
  outside the vocabulary has none.\<close>

definition geometry_type :: "string \<Rightarrow> string option" where
  "geometry_type table =
     (if table = ''nodes'' then Some ''point''
      else if table = ''ways_poly'' then Some ''polygon''
      else if table = ''ways_line'' then Some ''linestring''
      else None)"

text \<open>A schema with one source table that requires \<^verbatim>\<open>amenity\<close> and selects the name.\<close>

definition amenity_schema :: data_model where
  "amenity_schema =
     \<lparr>data_from = Some [''nodes''],
      data_select = Some [(''tags'', SelList [''name'']), (''name'', SelStr ''name'')],
      data_where = Some \<lparr>where_tags = [[(''amenity'', ''not null'')]]\<rparr>\<rparr>"

text \<open>A select mapping that the SELECT clause can be built from: each tag that its
  \<^verbatim>\<open>tags\<close> entry lists has an entry of its own.\<close>

definition select_ok :: "(string \<times> select_value) list \<Rightarrow> bool" where
  "select_ok select =
     (case map_of select ''tags'' of
        None \<Rightarrow> True
      | Some v \<Rightarrow> list_all (\<lambda>tag. map_of select tag \<noteq> None) (iterate v))"

text \<open>The same schema with no \<^verbatim>\<open>select\<close> key, and with a \<^verbatim>\<open>select\<close> that lists the tag
  \<^verbatim>\<open>name\<close> and has no entry for it.\<close>

definition no_select_schema :: data_model where
  "no_select_schema =
     \<lparr>data_from = Some [''nodes''],
      data_select = None,
      data_where = Some \<lparr>where_tags = [[(''amenity'', ''not null'')]]\<rparr>\<rparr>"

definition missing_column_schema :: data_model where
  "missing_column_schema =
     \<lparr>data_from = Some [''nodes''],
      data_select = Some [(''tags'', SelList [''name''])],
      data_where = Some \<lparr>where_tags = [[(''amenity'', ''not null'')]]\<rparr>\<rparr>"

text \<open>A schema over nodes and relations.\<close>

definition nodes_relations_schema :: data_model where
  "nodes_relations_schema =
     \<lparr>data_from = Some [''nodes'', ''relations''],
      data_select = Some [],
      data_where =
        Some \<lparr>where_tags = [[(''amenity'', ''not null''), (''building'', ''yes'')]]\<rparr>\<rparr>"

text \<open>A schema none of whose tags is required to be present.\<close>

definition untagged_schema :: data_model where
  "untagged_schema =
     \<lparr>data_from = Some [''nodes'', ''ways_poly''],
      data_select = Some [],
      data_where = Some \<lparr>where_tags = [[(''building'', ''residential'')]]\<rparr>\<rparr>"




text \<open>Tokens separated by single spaces, with no separator after the last.\<close>

fun join_tokens :: "string list \<Rightarrow> string" where
  "join_tokens [] = []"
| "join_tokens [t] = t"
| "join_tokens (t # u # ts) = t @ '' '' @ join_tokens (u # ts)"

text \<open>The Overpass query as the specification words it: each vertex of the ring as
  its longitude and then its latitude.\<close>

definition lon_lat_query :: "('c \<Rightarrow> string) \<Rightarrow> ('c \<times> 'c) list \<Rightarrow> string" where
  "lon_lat_query str ring =
     ''[out:json];way['' @ dquote @ ''building'' @ dquote @ ''](poly:'' @ dquote
       @ join_tokens (concat (map (\<lambda>(lon, lat). [str lon, str lat]) ring))
       @ dquote @ '');(._;>;);out body geom;''"

text \<open>What a poll loop that returns has seen: its last response lacks the status
  (the KeyError) or has the status \<^verbatim>\<open>SUCCESS\<close>, and is the response returned.\<close>

definition poll_post ::
  "(nat \<Rightarrow> status_json) \<Rightarrow> nat \<Rightarrow> nat \<times> event list \<times> (error + status_json) \<Rightarrow> bool" where
  "poll_post responses n y =
     (case y of
        (m, log', Inl e) \<Rightarrow> e = KeyError \<and> n < m \<and> status (responses (m - 1)) = None
      | (m, log', Inr r) \<Rightarrow>
          n < m \<and> status (responses (m - 1)) = Some ''SUCCESS'' \<and> r = responses (m - 1))"

text \<open>A schema over nodes and polygons that requires \<^verbatim>\<open>building\<close>.\<close>

definition buildings_schema :: data_model where
  "buildings_schema =
     \<lparr>data_from = Some [''nodes'', ''ways_poly''],
      data_select = Some [],
      data_where = Some \<lparr>where_tags = [[(''building'', ''not null'')]]\<rparr>\<rparr>"

text \<open>The two statements of \<open>buildings_schema\<close>.\<close>

definition nodes_query :: string where
  "nodes_query =
     ''SELECT osm_id AS id, ST_AsEWKT(ST_Centroid(geom)), tags  FROM nodes  WHERE tags->>''
     @ apos @ ''building'' @ apos @ '' IS NOT NULL''"

definition ways_query :: string where
  "ways_query =
     ''SELECT osm_id AS id, ST_AsEWKT(ST_Centroid(geom)), tags  FROM ways_poly  WHERE tags->>''
     @ apos @ ''building'' @ apos @ '' IS NOT NULL''"

text \<open>The text of a boundary.\<close>

definition example_wkt :: string where
  "example_wkt = ''POLYGON ((0 0, 0 9, 9 9, 0 0))''"

text \<open>A database that holds one node and one polygon. A session's state is the list of
  the statements executed; the rows fetched are those of the view that the last statement
  reads. A coordinate is kept as its decimal text, which has fewer than six decimals in
  the examples, so that rounding leaves it as it is.\<close>

definition node_row :: "pyval list" where
  "node_row = [PInt 1, PStr ''SRID=4326;POINT(1.5 2.5)'', PDict [(''name'', PStr ''Town Hall'')]]"

definition way_row :: "pyval list" where
  "way_row = [PInt 2, PStr ''SRID=4326;POINT(3.5 4.5)'', PDict [(''building'', PStr ''yes'')]]"

definition example_fetchall :: "string list \<Rightarrow> pyval list list" where
  "example_fetchall cur =
     (if cur = [] then []
      else if str_find (last cur) ''FROM nodes_view'' \<ge> 0 then [node_row]
      else if str_find (last cur) ''FROM ways_view'' \<ge> 0 then [way_row]
      else [])"

definition example_env :: "(string list, string) env" where
  "example_env =
     \<lparr>execute = (\<lambda>cur sql. Inr (cur @ [sql])),
      fetchall = example_fetchall,
      py_float = (\<lambda>s. if s = [] then None else Some s),
      geo_round = (\<lambda>c. c)\<rparr>"

text \<open>The features of the two rows.\<close>

definition node_feature :: "string feature" where
  "node_feature =
     \<lparr>geometry = Some (Point ''1.5'' ''2.5''),
      properties =
        [(''name'', PStr ''Town Hall''), (''id'', PStr ''SRID=4326;POINT(1.5 2.5)''),
         (''title'', PStr ''Town Hall''), (''label'', PStr ''Town Hall'')]\<rparr>"

definition building_feature :: "string feature" where
  "building_feature =
     \<lparr>geometry = Some (Point ''3.5'' ''4.5''),
      properties =
        [(''building'', PStr ''yes''), (''id'', PStr ''SRID=4326;POINT(3.5 4.5)''),
         (''title'', PNone), (''label'', PNone)]\<rparr>"




text \<open>A service that answers PENDING to the first two status polls and SUCCESS from
  the third on, and serves an archive with the entry \<^verbatim>\<open>Export.geojson\<close>.\<close>

definition export_bytes :: bytes where
  "export_bytes = [0x7B, 0x7D]"

definition mock_server :: server where
  "mock_server =
     \<lparr>snapshot = (\<lambda>u body. Some ''42''),
      task_status =
        (\<lambda>u n. if n < 2 then \<lparr>status = Some ''PENDING'', download_url = None\<rparr>
                else \<lparr>status = Some ''SUCCESS'',
                      download_url = Some ''https://example.org/export.zip''\<rparr>),
      download =
        (\<lambda>u. if u = ''https://example.org/export.zip''
             then Some (\<lambda>name. if name = ''Export.geojson'' then Some export_bytes else None)
             else None)\<rparr>"

text \<open>A service whose task reports \<^verbatim>\<open>FAILED\<close> forever.\<close>

definition failing_server :: server where
  "failing_server =
     \<lparr>snapshot = (\<lambda>u body. Some ''42''),
      task_status = (\<lambda>u n. \<lparr>status = Some ''FAILED'', download_url = None\<rparr>),
      download = (\<lambda>u. None)\<rparr>"

text \<open>The object that line 68-75 build for the database name \<^verbatim>\<open>underpass\<close>, and one
  with an open session.\<close>

definition underpass_self :: "(unit, string list) DatabaseAccess" where
  "underpass_self =
     \<lparr>dbshell = None, dbcursor = None, url = Some ''https://raw-data-api0.hotosm.org/v1''\<rparr>"

definition local_self :: "(unit, string list) DatabaseAccess" where
  "local_self = \<lparr>dbshell = Some (), dbcursor = Some [], url = None\<rparr>"

text \<open>The object that lines 76-90 leave when the connection to the database \<^verbatim>\<open>osm\<close>
  fails.\<close>

definition failed_self :: "(unit, string list) DatabaseAccess" where
  "failed_self = \<lparr>dbshell = None, dbcursor = None, url = None\<rparr>"

text \<open>The status URL of the task, and the events of a run against \<open>mock_server\<close>.\<close>

definition status_url :: string where
  "status_url = ''https://raw-data-api0.hotosm.org/v1/tasks/status/42''"

definition mock_log :: "string \<Rightarrow> event list" where
  "mock_log query =
     [POST ''https://raw-data-api0.hotosm.org/v1/snapshot/'' query,
      GET status_url, SLEEP 1, GET status_url, SLEEP 1, GET status_url,
      GET ''https://example.org/export.zip'', EXTRACT ''Export.geojson'' ''/tmp/'']"

text \<open>The exterior ring of a boundary, as (longitude, latitude) pairs.\<close>

definition example_ring :: "(string \<times> string) list" where
  "example_ring = [(''10'', ''50''), (''11'', ''50''), (''11'', ''51''), (''10'', ''50'')]"

section \<open>Properties of createSQL\<close>

lemma drop_last_suffix: "length b = n \<Longrightarrow> drop_last n (a @ b) = a"
  by (simp add: drop_last_def)

lemma suffix_last: "suffix xs ys \<Longrightarrow> xs \<noteq> [] \<Longrightarrow> last ys = last xs"
  by (auto simp: suffix_def)

lemma where_loop_none:
  "\<forall>(tag, val) \<in> set tags. val \<noteq> ''not null'' \<Longrightarrow> where_loop tags query = query"
  by (induction tags query rule: where_loop.induct) auto

lemma createSQL_loop_map:
  "(\<And>t. t \<in> set tables \<Longrightarrow> createSQL_query repr data t = Inr (f t))
     \<Longrightarrow> createSQL_loop repr data tables sql = Inr (sql @ map f tables)"
  by (induction tables arbitrary: sql) simp_all

lemma createSQL_loop_length:
  "createSQL_loop repr data tables sql = Inr out \<Longrightarrow> length out = length sql + length tables"
  by (induction tables arbitrary: sql) (auto split: sum.splits)

lemma select_loop_ok:
  "list_all (\<lambda>tag. map_of select tag \<noteq> None) tags
     \<Longrightarrow> \<exists>sel. select_loop repr select tags query = Inr sel"
  by (induction tags arbitrary: query) auto

lemma select_clause_ok: "select_ok select \<Longrightarrow> \<exists>sel. select_clause repr select = Inr sel"
proof (cases "map_of select ''tags''")
  case None
  then show ?thesis by (simp add: select_clause_def)
next
  case (Some v)
  assume "select_ok select"
  with Some have "list_all (\<lambda>tag. map_of select tag \<noteq> None) (iterate v)"
    by (simp add: select_ok_def)
  then obtain q where "select_loop repr select (iterate v) ''SELECT '' = Inr q"
    using select_loop_ok by blast
  with Some show ?thesis by (simp add: select_clause_def)
qed

lemma createSQL_amenity_statement:
  assumes "data_from data = Some [table]"
    and "data_select data = Some select"
    and "select_clause repr select = Inr sel"
    and "data_where data = Some w"
    and "where_tags w = [(''amenity'', ''not null'')] # rest"
  shows "let stmt = sel @ '' FROM '' @ table @ ''  WHERE '' @ not_null_condition ''amenity''
         in createSQL repr data = Inr [stmt]
            \<and> sublist (not_null_condition ''amenity'') stmt
            \<and> suffix (not_null_condition ''amenity'') stmt
            \<and> \<not> suffix '' OR '' stmt \<and> \<not> suffix '' FROM '' stmt"
proof -
  define stmt where
    "stmt = sel @ '' FROM '' @ table @ ''  WHERE '' @ not_null_condition ''amenity''"
  have glue: "where_loop [(''amenity'', ''not null'')]
      (sel @ '' FROM '' @ table @ '' '' @ '' WHERE '') = stmt @ '' OR ''"
    by (simp add: stmt_def not_null_condition_def)
  have cut: "drop_last 4 (stmt @ '' OR '') = stmt"
    by (rule drop_last_suffix) simp
  have "createSQL_query repr data table =
      Inr (drop_last 4 (where_loop [(''amenity'', ''not null'')]
        (sel @ '' FROM '' @ table @ '' '' @ '' WHERE '')))"
    using assms(2-5) by (simp add: createSQL_query_def del: where_loop.simps)
  then have "createSQL_query repr data table = Inr stmt"
    by (simp only: glue cut)
  then have sql: "createSQL repr data = Inr [stmt]"
    using assms(1) by (simp add: createSQL_def)
  have suf: "suffix (not_null_condition ''amenity'') stmt"
    unfolding stmt_def suffix_def by (metis append.assoc)
  then have sub: "sublist (not_null_condition ''amenity'') stmt"
    by (rule suffix_imp_sublist)
  have l: "last stmt = CHR ''L''"
    by (simp add: stmt_def not_null_condition_def)
  have "\<not> suffix '' OR '' stmt" "\<not> suffix '' FROM '' stmt"
    using l suffix_last [of "'' OR ''" stmt] suffix_last [of "'' FROM ''" stmt] by auto
  with sql suf sub show ?thesis
    by (simp add: stmt_def Let_def)
qed

text \<open>
  Claim C3, as amended. A schema with the one source table \<open>table\<close>, required tags
  \<^verbatim>\<open>{"amenity": "not null"}\<close> and a \<^verbatim>\<open>select\<close> mapping that is present and has an entry
  for each tag that its \<^verbatim>\<open>tags\<close> list names gives exactly one statement: the SELECT
  clause, the FROM clause and \<^verbatim>\<open>WHERE tags->>'amenity' IS NOT NULL\<close>. The statement
  contains the condition, ends with it, and ends neither with the glue \<^verbatim>\<open>" OR "\<close> nor
  with \<^verbatim>\<open>" FROM "\<close>.
\<close>

theorem createSQL_amenity_one_table:
  assumes "data_from data = Some [table]"
    and "data_select data = Some select"
    and "select_ok select"
    and "data_where data = Some w"
    and "where_tags w = [(''amenity'', ''not null'')] # rest"
  shows "\<exists>sel. select_clause repr select = Inr sel
     \<and> (let stmt = sel @ '' FROM '' @ table @ ''  WHERE '' @ not_null_condition ''amenity''
         in createSQL repr data = Inr [stmt]
            \<and> sublist (not_null_condition ''amenity'') stmt
            \<and> suffix (not_null_condition ''amenity'') stmt
            \<and> \<not> suffix '' OR '' stmt \<and> \<not> suffix '' FROM '' stmt)"
proof -
  from assms(3) obtain sel where sel: "select_clause repr select = Inr sel"
    using select_clause_ok by blast
  with assms(1,2,4,5) show ?thesis
    using createSQL_amenity_statement [of data table select repr sel w rest] by blast
qed

theorem createSQL_amenity_one_table_witness:
  "select_ok [(''tags'', SelList [''name'']), (''name'', SelStr ''name'')]
   \<and> createSQL (\<lambda>xs. []) amenity_schema =
       Inr [''SELECT  name AS name, osm_id AS id, ST_AsEWKT(ST_Centroid(geom)) ''
            @ '' FROM nodes  WHERE tags->>'' @ apos @ ''amenity'' @ apos @ '' IS NOT NULL'']"
  using createSQL_amenity_one_table [of amenity_schema "''nodes''"
      "[(''tags'', SelList [''name'']), (''name'', SelStr ''name'')]"
      "\<lparr>where_tags = [[(''amenity'', ''not null'')]]\<rparr>" "[]" "\<lambda>xs. []"]
  by (simp add: amenity_schema_def select_ok_def select_clause_def not_null_condition_def
      Let_def)

text \<open>The claim as stated fails for a schema with no \<^verbatim>\<open>select\<close> key, where line 133
  raises KeyError, and for one whose \<^verbatim>\<open>select\<close> lists a tag it has no entry for, where
  line 137 does: no statement is produced.\<close>

theorem createSQL_select_counterexample:
  "createSQL (\<lambda>xs. []) no_select_schema = Inl KeyError
   \<and> createSQL (\<lambda>xs. []) missing_column_schema = Inl KeyError"
  by (simp add: createSQL_def createSQL_query_def select_clause_def no_select_schema_def
      missing_column_schema_def)

text \<open>
  Claim C4. For a schema in which no tag of \<^verbatim>\<open>where.tags[0]\<close> has the value
  \<^verbatim>\<open>"not null"\<close>, the code does not omit the WHERE clause: line 145 appends
  \<^verbatim>\<open>" WHERE "\<close> whatever the tags are, and line 150 cuts four characters of it, so each
  statement ends with the truncated keyword \<^verbatim>\<open>WH\<close>.
\<close>

theorem createSQL_without_not_null:
  assumes "data_from data = Some tables"
    and "data_select data = Some select"
    and "select_clause repr select = Inr sel"
    and "data_where data = Some w"
    and "where_tags w = tags # rest"
    and "\<forall>(tag, val) \<in> set tags. val \<noteq> ''not null''"
  shows "createSQL repr data = Inr (map (\<lambda>table. sel @ '' FROM '' @ table @ ''  WH'') tables)"
proof -
  have "createSQL_query repr data table = Inr (sel @ '' FROM '' @ table @ ''  WH'')" for table
  proof -
    have "createSQL_query repr data table =
        Inr (drop_last 4 (where_loop tags (sel @ '' FROM '' @ table @ '' '' @ '' WHERE '')))"
      using assms(2-5) by (simp add: createSQL_query_def)
    also have "where_loop tags (sel @ '' FROM '' @ table @ '' '' @ '' WHERE '')
        = (sel @ '' FROM '' @ table @ ''  WH'') @ ''ERE ''"
      using where_loop_none [OF assms(6)] by simp
    also have "drop_last 4 ((sel @ '' FROM '' @ table @ ''  WH'') @ ''ERE '')
        = sel @ '' FROM '' @ table @ ''  WH''"
      by (rule drop_last_suffix) simp
    finally show ?thesis .
  qed
  then have "createSQL_loop repr data tables [] =
      Inr ([] @ map (\<lambda>table. sel @ '' FROM '' @ table @ ''  WH'') tables)"
    by (intro createSQL_loop_map) simp
  with assms(1) show ?thesis
    by (simp add: createSQL_def)
qed

theorem createSQL_without_not_null_witness:
  "createSQL (\<lambda>xs. []) untagged_schema =
     Inr [''SELECT osm_id AS id, ST_AsEWKT(ST_Centroid(geom)), tags  FROM nodes  WH'',
          ''SELECT osm_id AS id, ST_AsEWKT(ST_Centroid(geom)), tags  FROM ways_poly  WH'']"
  using createSQL_without_not_null [of untagged_schema "[''nodes'', ''ways_poly'']" "[]"
      "\<lambda>xs. []" "''SELECT osm_id AS id, ST_AsEWKT(ST_Centroid(geom)), tags ''"
      "\<lparr>where_tags = [[(''building'', ''residential'')]]\<rparr>"
      "[(''building'', ''residential'')]" "[]"]
  by (simp add: untagged_schema_def select_clause_def)

section \<open>Properties of createJson\<close>

lemma update_fresh: "k \<notin> fst ` set al \<Longrightarrow> AList.update k v al = al @ [(k, v)]"
  by (induction al) auto

lemma columns_loop_distinct:
  "distinct (map fst tags) \<Longrightarrow> fst ` set tags \<inter> fst ` set columns = {}
     \<Longrightarrow> columns_loop tags columns =
         columns @ map (\<lambda>(tag, val). (tag, JList []))
           (filter (\<lambda>(tag, val). val = ''not null'') tags)"
proof (induction tags columns rule: columns_loop.induct)
  case (1 columns)
  then show ?case by simp
next
  case (2 tag val rest columns)
  then show ?case
    by (auto simp: update_fresh image_iff)
qed

lemma append_table_geometry_type:
  "append_table table tables =
     tables @ (case geometry_type table of None \<Rightarrow> [] | Some g \<Rightarrow> [g])"
  by (simp add: append_table_def geometry_type_def)

lemma tables_loop_map_filter:
  "tables_loop from_tables tables = tables @ List.map_filter geometry_type from_tables"
  by (induction from_tables arbitrary: tables)
     (auto simp: append_table_geometry_type map_filter_simps split: option.splits)

text \<open>
  Claim C2, as amended. For a schema whose \<^verbatim>\<open>where.tags[0]\<close> is the dictionary \<open>tags\<close>
  and whose source tables are \<open>from_tables\<close>, the filter document has \<^verbatim>\<open>geometry\<close> equal
  to the boundary, \<^verbatim>\<open>filters.tags.all_geometry.join_or\<close> mapping each tag whose value
  is \<^verbatim>\<open>"not null"\<close> to an empty list, \<^verbatim>\<open>geometryType\<close> equal to the source tables
  translated in order, with relations (and any name outside the vocabulary) dropped, and
  \<^verbatim>\<open>centroid\<close> equal to the string \<^verbatim>\<open>"true"\<close>, which is not the JSON boolean.
\<close>

theorem createJson_document:
  assumes "data_where data = Some w"
    and "where_tags w = tags # rest"
    and "distinct (map fst tags)"
    and "data_from data = Some from_tables"
  shows "createJson_features data boundary =
     Inr (JObj
       [(''geometry'', boundary),
        (''filters'',
           JObj [(''tags'',
             JObj [(''all_geometry'',
               JObj [(''join_or'',
                 JObj (map (\<lambda>(tag, val). (tag, JList []))
                        (filter (\<lambda>(tag, val). val = ''not null'') tags)))])])]),
        (''geometryType'', JList (map JStr (List.map_filter geometry_type from_tables))),
        (''centroid'', JStr ''true'')])"
  using assms columns_loop_distinct [of tags "[]"] tables_loop_map_filter [of from_tables "[]"]
  by (simp add: createJson_features_def)

theorem createJson_document_witness:
  "createJson_features nodes_relations_schema (JNull :: nat json) =
     Inr (JObj
       [(''geometry'', JNull),
        (''filters'',
           JObj [(''tags'',
             JObj [(''all_geometry'', JObj [(''join_or'', JObj [(''amenity'', JList [])])])])]),
        (''geometryType'', JList [JStr ''point'']),
        (''centroid'', JStr ''true'')])"
  using createJson_document [of nodes_relations_schema
      "\<lparr>where_tags = [[(''amenity'', ''not null''), (''building'', ''yes'')]]\<rparr>"
      "[(''amenity'', ''not null''), (''building'', ''yes'')]" "[]" "[''nodes'', ''relations'']"
      "JNull :: nat json"]
  by (simp add: nodes_relations_schema_def geometry_type_def map_filter_simps)

text \<open>The claim as stated fails on the value of \<^verbatim>\<open>centroid\<close>: line 120 assigns the
  string, so the document read back has a string there and not the boolean \<open>true\<close>.\<close>

theorem createJson_centroid_counterexample:
  "map_sum id (json_get ''centroid'')
       (createJson_features nodes_relations_schema (JNull :: nat json))
     = Inr (Some (JStr ''true''))
   \<and> map_sum id (json_get ''centroid'')
       (createJson_features nodes_relations_schema (JNull :: nat json))
     \<noteq> Inr (Some (JBool True))"
  by (simp add: createJson_features_def nodes_relations_schema_def)

section \<open>Evaluating the examples\<close>

lemma node_row_feature: "row_feature (py_float example_env) (geo_round example_env) node_row = Inr node_feature"
  by (simp add: row_feature_def node_row_def example_env_def drop_last_def node_feature_def)

lemma way_row_feature: "row_feature (py_float example_env) (geo_round example_env) way_row = Inr building_feature"
  by (simp add: row_feature_def way_row_def example_env_def drop_last_def building_feature_def)

lemma createSQL_buildings: "createSQL (\<lambda>xs. []) buildings_schema = Inr [nodes_query, ways_query]"
  by (simp add: createSQL_def createSQL_query_def select_clause_def buildings_schema_def
      nodes_query_def ways_query_def drop_last_def apos_def)

lemma rewrite_nodes_query: "str_find (rewrite_query nodes_query) ''FROM nodes_view'' = 57"
  by (simp add: rewrite_query_def str_find_def nodes_query_def apos_def)

lemma rewrite_ways_query:
  "str_find (rewrite_query ways_query) ''FROM nodes_view'' = - 1"
  "str_find (rewrite_query ways_query) ''FROM ways_view'' = 57"
  by (simp_all add: rewrite_query_def str_find_def ways_query_def apos_def)

lemma queryLocal_nodes:
  "queryLocal example_env (Some cur) nodes_query wkt =
     Inr (cur @ [ways_view_sql wkt, nodes_view_sql wkt, rewrite_query nodes_query], [node_feature])"
  by (simp add: queryLocal_def example_env_def example_fetchall_def rewrite_nodes_query
      node_row_feature [unfolded example_env_def, simplified])

lemma queryLocal_ways:
  "queryLocal example_env (Some cur) ways_query wkt =
     Inr (cur @ [ways_view_sql wkt, nodes_view_sql wkt, rewrite_query ways_query], [building_feature])"
  by (simp add: queryLocal_def example_env_def example_fetchall_def rewrite_ways_query
      way_row_feature [unfolded example_env_def, simplified])

section \<open>Properties of queryLocal\<close>

lemma row_feature_id:
  "row_feature float rnd item = Inr f \<Longrightarrow> map_of (properties f) ''id'' = Some (item ! 1)"
  by (auto simp: row_feature_def Let_def update_conv' split: if_splits pyval.splits option.splits)

lemma rows_loop_ids:
  "rows_loop float rnd rows acc = Inr fs \<Longrightarrow>
     map (\<lambda>f. map_of (properties f) ''id'') fs =
       map (\<lambda>f. map_of (properties f) ''id'') acc @ map (\<lambda>item. Some (item ! 1)) rows"
  by (induction rows arbitrary: acc) (auto split: sum.splits dest: row_feature_id)

text \<open>
  Claim C5. The \<^verbatim>\<open>id\<close> of each feature that queryLocal emits is the second column of
  its row (line 175 reads \<^verbatim>\<open>item[1]\<close>), the column whose text line 172 parses as the
  centroid; it is not the first column, which the SELECT clause of line 140 projects as
  \<^verbatim>\<open>osm_id AS id\<close>.
\<close>

theorem queryLocal_id_is_second_column:
  assumes "queryLocal env cursor query wkt = Inr (cur, features)"
  shows "map (\<lambda>f. map_of (properties f) ''id'') features =
     map (\<lambda>item. Some (item ! 1)) (fetchall env cur)"
  using assms rows_loop_ids [of "py_float env" "geo_round env" "fetchall env cur" "[]" features]
  by (auto simp: queryLocal_def split: option.splits sum.splits)

theorem queryLocal_id_is_second_column_witness:
  "queryLocal example_env (Some []) nodes_query example_wkt =
     Inr ([ways_view_sql example_wkt, nodes_view_sql example_wkt, rewrite_query nodes_query],
          [node_feature])
   \<and> fetchall example_env
        [ways_view_sql example_wkt, nodes_view_sql example_wkt, rewrite_query nodes_query]
      = [[PInt 1, PStr ''SRID=4326;POINT(1.5 2.5)'', PDict [(''name'', PStr ''Town Hall'')]]]
   \<and> map (\<lambda>f. map_of (properties f) ''id'') [node_feature]
      = [Some (PStr ''SRID=4326;POINT(1.5 2.5)'')]
   \<and> map_of (properties node_feature) ''id'' \<noteq> Some (PInt 1)"
  using queryLocal_id_is_second_column [of example_env "Some []" nodes_query example_wkt
      "[ways_view_sql example_wkt, nodes_view_sql example_wkt, rewrite_query nodes_query]"
      "[node_feature]"]
    queryLocal_nodes [of "[]" example_wkt]
  by (simp add: example_env_def example_fetchall_def rewrite_nodes_query node_row_def
      node_feature_def)










section \<open>Properties of the poll loop and of queryRemote\<close>

lemma poll_pending:
  "status (responses n) = Some ''PENDING'' \<Longrightarrow>
     poll responses newurl n log = poll responses newurl (Suc n) (log @ [GET newurl, SLEEP 1])"
  by (subst poll.simps) simp

lemma poll_success:
  "status (responses n) = Some ''SUCCESS'' \<Longrightarrow>
     poll responses newurl n log = Some (Suc n, log @ [GET newurl], Inr (responses n))"
  by (subst poll.simps) simp

lemma poll_other:
  "status (responses n) = Some s \<Longrightarrow> s \<noteq> ''PENDING'' \<Longrightarrow> s \<noteq> ''SUCCESS'' \<Longrightarrow>
     poll responses newurl n log = poll responses newurl (Suc n) (log @ [GET newurl])"
  by (subst poll.simps) simp

lemma poll_missing:
  "status (responses n) = None \<Longrightarrow>
     poll responses newurl n log = Some (Suc n, log @ [GET newurl], Inl KeyError)"
  by (subst poll.simps) simp

lemma poll_returns:
  assumes "poll responses newurl n log = Some y"
  shows "poll_post responses n y"
proof (rule poll.raw_induct [where P = "\<lambda>responses newurl n log y. poll_post responses n y"
      and responses = responses and newurl = newurl and n = n and log = log and y = y])
  fix pl :: "(nat \<Rightarrow> status_json) \<Rightarrow> string \<Rightarrow> nat \<Rightarrow> event list
      \<Rightarrow> (nat \<times> event list \<times> (error + status_json)) option"
    and rs u k lg z
  assume IH: "\<And>rs u k lg z. pl rs u k lg = Some z \<Longrightarrow> poll_post rs k z"
  assume body:
    "(case status (rs k) of
        None \<Rightarrow> Some (Suc k, lg @ [GET u], Inl KeyError)
      | Some s \<Rightarrow>
          if s = ''PENDING'' then pl rs u (Suc k) (lg @ [GET u, SLEEP 1])
          else if s = ''SUCCESS'' then Some (Suc k, lg @ [GET u], Inr (rs k))
          else pl rs u (Suc k) (lg @ [GET u])) = Some z"
  show "poll_post rs k z"
  proof (cases "status (rs k)")
    case None
    with body show ?thesis by (auto simp: poll_post_def)
  next
    case (Some s)
    consider (pending) "s = ''PENDING''" | (success) "s \<noteq> ''PENDING''" "s = ''SUCCESS''"
      | (other) "s \<noteq> ''PENDING''" "s \<noteq> ''SUCCESS''"
      by blast
    then show ?thesis
    proof cases
      case pending
      with Some body have "pl rs u (Suc k) (lg @ [GET u, SLEEP 1]) = Some z" by simp
      then have "poll_post rs (Suc k) z" by (rule IH)
      then show ?thesis by (auto simp: poll_post_def split: prod.splits sum.splits)
    next
      case success
      with Some body show ?thesis by (auto simp: poll_post_def)
    next
      case other
      with Some body have "pl rs u (Suc k) (lg @ [GET u]) = Some z" by simp
      then have "poll_post rs (Suc k) z" by (rule IH)
      then show ?thesis by (auto simp: poll_post_def split: prod.splits sum.splits)
    qed
  qed
next
  show "poll responses newurl n log = Some y" by (rule assms)
qed

lemma poll_never_returns:
  assumes "\<forall>i. \<exists>s. status (responses i) = Some s \<and> s \<noteq> ''SUCCESS''"
  shows "poll responses newurl n log = None"
proof (cases "poll responses newurl n log")
  case None
  then show ?thesis .
next
  case (Some y)
  then have post: "poll_post responses n y" by (rule poll_returns)
  obtain m log' r where y: "y = (m, log', r)" by (cases y)
  from assms obtain s where s: "status (responses (m - 1)) = Some s" "s \<noteq> ''SUCCESS''"
    by blast
  from post y s have False
    by (cases r) (simp_all add: poll_post_def)
  then show ?thesis ..
qed

lemma poll_last_get:
  assumes "poll responses newurl n log = Some y"
  shows "\<exists>rest. fst (snd y) = rest @ [GET newurl]"
proof (rule poll.raw_induct [where P = "\<lambda>responses newurl n log y.
      \<exists>rest. fst (snd y) = rest @ [GET newurl]"
      and responses = responses and newurl = newurl and n = n and log = log and y = y])
  fix pl :: "(nat \<Rightarrow> status_json) \<Rightarrow> string \<Rightarrow> nat \<Rightarrow> event list
      \<Rightarrow> (nat \<times> event list \<times> (error + status_json)) option"
    and rs u k lg z
  assume IH: "\<And>rs u k lg z. pl rs u k lg = Some z \<Longrightarrow> \<exists>rest. fst (snd z) = rest @ [GET u]"
  assume body:
    "(case status (rs k) of
        None \<Rightarrow> Some (Suc k, lg @ [GET u], Inl KeyError)
      | Some s \<Rightarrow>
          if s = ''PENDING'' then pl rs u (Suc k) (lg @ [GET u, SLEEP 1])
          else if s = ''SUCCESS'' then Some (Suc k, lg @ [GET u], Inr (rs k))
          else pl rs u (Suc k) (lg @ [GET u])) = Some z"
  show "\<exists>rest. fst (snd z) = rest @ [GET u]"
  proof (cases "status (rs k)")
    case None
    with body show ?thesis by auto
  next
    case (Some s)
    consider (pending) "s = ''PENDING''" | (success) "s \<noteq> ''PENDING''" "s = ''SUCCESS''"
      | (other) "s \<noteq> ''PENDING''" "s \<noteq> ''SUCCESS''"
      by blast
    then show ?thesis
    proof cases
      case pending
      with Some body have "pl rs u (Suc k) (lg @ [GET u, SLEEP 1]) = Some z" by simp
      then show ?thesis by (rule IH)
    next
      case success
      with Some body show ?thesis by auto
    next
      case other
      with Some body have "pl rs u (Suc k) (lg @ [GET u]) = Some z" by simp
      then show ?thesis by (rule IH)
    qed
  qed
next
  show "poll responses newurl n log = Some y" by (rule assms)
qed

text \<open>
  Claim C1. Against a service that answers PENDING to the first two status polls and
  SUCCESS to the third, the loop polls exactly three times and sleeps 1 after each PENDING;
  the client then gets \<^verbatim>\<open>result.download_url\<close> and returns the content of the archive's
  entry \<^verbatim>\<open>Export.geojson\<close>.
\<close>

theorem queryRemote_pending_twice_then_success:
  assumes "url self = Some base"
    and "snapshot srv (base @ ''/snapshot/'') query = Some task_id"
    and "newurl = base @ ''/tasks/status/'' @ task_id"
    and "status (task_status srv newurl 0) = Some ''PENDING''"
    and "status (task_status srv newurl 1) = Some ''PENDING''"
    and "status (task_status srv newurl 2) = Some ''SUCCESS''"
    and "download_url (task_status srv newurl 2) = Some zip_url"
    and "download srv zip_url = Some zfp"
    and "zfp ''Export.geojson'' = Some content"
  shows "poll (task_status srv newurl) newurl 0 [POST (base @ ''/snapshot/'') query] =
       Some (3, [POST (base @ ''/snapshot/'') query,
                 GET newurl, SLEEP 1, GET newurl, SLEEP 1, GET newurl],
             Inr (task_status srv newurl 2))
     \<and> queryRemote srv self query =
       Some ([POST (base @ ''/snapshot/'') query,
              GET newurl, SLEEP 1, GET newurl, SLEEP 1, GET newurl,
              GET zip_url, EXTRACT ''Export.geojson'' ''/tmp/''],
             Inr content)"
proof -
  let ?responses = "task_status srv newurl"
  let ?post = "POST (base @ ''/snapshot/'') query"
  have "poll ?responses newurl 0 [?post] = poll ?responses newurl 1 [?post, GET newurl, SLEEP 1]"
    using poll_pending [of ?responses 0 newurl "[?post]"] assms(4) by simp
  also have "\<dots> = poll ?responses newurl 2
      [?post, GET newurl, SLEEP 1, GET newurl, SLEEP 1]"
    using poll_pending [of ?responses 1 newurl "[?post, GET newurl, SLEEP 1]"] assms(5)
    by (simp add: numeral_2_eq_2)
  also have "\<dots> = Some (3, [?post, GET newurl, SLEEP 1, GET newurl, SLEEP 1, GET newurl],
      Inr (?responses 2))"
    using poll_success [of ?responses 2 newurl
        "[?post, GET newurl, SLEEP 1, GET newurl, SLEEP 1]"] assms(6)
    by (simp add: numeral_3_eq_3 numeral_2_eq_2)
  finally have polled: "poll ?responses newurl 0 [?post] =
      Some (3, [?post, GET newurl, SLEEP 1, GET newurl, SLEEP 1, GET newurl],
        Inr (?responses 2))" .
  have "fetch_export srv [?post, GET newurl, SLEEP 1, GET newurl, SLEEP 1, GET newurl]
      (?responses 2) =
      ([?post, GET newurl, SLEEP 1, GET newurl, SLEEP 1, GET newurl,
        GET zip_url, EXTRACT ''Export.geojson'' ''/tmp/''], Inr content)"
    using assms(7-9) by (simp add: fetch_export_def)
  with polled assms(1-3) have "queryRemote srv self query =
      Some ([?post, GET newurl, SLEEP 1, GET newurl, SLEEP 1, GET newurl,
             GET zip_url, EXTRACT ''Export.geojson'' ''/tmp/''], Inr content)"
    by (simp add: queryRemote_def)
  with polled show ?thesis by simp
qed

theorem queryRemote_pending_twice_then_success_witness:
  "status (task_status mock_server status_url 0) = Some ''PENDING''
   \<and> status (task_status mock_server status_url 1) = Some ''PENDING''
   \<and> status (task_status mock_server status_url 2) = Some ''SUCCESS''
   \<and> queryRemote mock_server underpass_self ''{}'' = Some (mock_log ''{}'', Inr export_bytes)"
  using queryRemote_pending_twice_then_success [of underpass_self
      "''https://raw-data-api0.hotosm.org/v1''" mock_server "''{}''" "''42''" status_url
      "''https://example.org/export.zip''"
      "\<lambda>name. if name = ''Export.geojson'' then Some export_bytes else None" export_bytes]
  by (simp add: mock_server_def underpass_self_def status_url_def mock_log_def)

text \<open>
  Claim C10. When every status response carries a status other than \<^verbatim>\<open>SUCCESS\<close>, the
  poll loop never returns, and neither does queryRemote; a loop that returns a response
  has polled one with the status \<^verbatim>\<open>SUCCESS\<close>; and on a status that is neither
  \<^verbatim>\<open>PENDING\<close> nor \<^verbatim>\<open>SUCCESS\<close> the next step is the next poll, with no sleep between.
\<close>

theorem poll_terminates_only_on_success:
  "((\<forall>i. \<exists>s. status (responses i) = Some s \<and> s \<noteq> ''SUCCESS'')
      \<longrightarrow> poll responses newurl n log = None)
   \<and> (poll responses newurl n log = Some (m, log', Inr r)
      \<longrightarrow> (\<exists>i\<ge>n. status (responses i) = Some ''SUCCESS''))
   \<and> (status (responses n) = Some s \<and> s \<noteq> ''PENDING'' \<and> s \<noteq> ''SUCCESS''
      \<longrightarrow> poll responses newurl n log = poll responses newurl (Suc n) (log @ [GET newurl]))
   \<and> (url self = Some base \<and> snapshot srv (base @ ''/snapshot/'') query = Some task_id
       \<and> (\<forall>i. \<exists>s. status (task_status srv (base @ ''/tasks/status/'' @ task_id) i) = Some s
              \<and> s \<noteq> ''SUCCESS'')
      \<longrightarrow> queryRemote srv self query = None)"
proof (intro conjI impI)
  assume "\<forall>i. \<exists>s. status (responses i) = Some s \<and> s \<noteq> ''SUCCESS''"
  then show "poll responses newurl n log = None" by (rule poll_never_returns)
next
  assume "poll responses newurl n log = Some (m, log', Inr r)"
  then have "poll_post responses n (m, log', Inr r)" by (rule poll_returns)
  then have "n < m" "status (responses (m - 1)) = Some ''SUCCESS''"
    by (simp_all add: poll_post_def)
  moreover from \<open>n < m\<close> have "n \<le> m - 1" by arith
  ultimately show "\<exists>i\<ge>n. status (responses i) = Some ''SUCCESS''" by blast
next
  assume "status (responses n) = Some s \<and> s \<noteq> ''PENDING'' \<and> s \<noteq> ''SUCCESS''"
  then show "poll responses newurl n log = poll responses newurl (Suc n) (log @ [GET newurl])"
    by (simp add: poll_other)
next
  assume a: "url self = Some base \<and> snapshot srv (base @ ''/snapshot/'') query = Some task_id
       \<and> (\<forall>i. \<exists>s. status (task_status srv (base @ ''/tasks/status/'' @ task_id) i) = Some s
              \<and> s \<noteq> ''SUCCESS'')"
  then have "poll (task_status srv (base @ ''/tasks/status/'' @ task_id))
      (base @ ''/tasks/status/'' @ task_id) 0 [POST (base @ ''/snapshot/'') query] = None"
    by (intro poll_never_returns) simp
  with a show "queryRemote srv self query = None"
    by (simp add: queryRemote_def)
qed

theorem poll_terminates_only_on_success_witness:
  "(\<forall>i. \<exists>s. status (task_status failing_server status_url i) = Some s \<and> s \<noteq> ''SUCCESS'')
   \<and> status (task_status failing_server status_url 0) = Some ''FAILED''
   \<and> poll (task_status failing_server status_url) status_url 0 [] = None
   \<and> poll (task_status failing_server status_url) status_url 0 [] =
       poll (task_status failing_server status_url) status_url (Suc 0) ([] @ [GET status_url])
   \<and> queryRemote failing_server underpass_self ''{}'' = None"
proof -
  note t = poll_terminates_only_on_success [of "task_status failing_server status_url"
      status_url 0 "[]" 0 "[]" "\<lparr>status = None, download_url = None\<rparr>" "''FAILED''"
      underpass_self "''https://raw-data-api0.hotosm.org/v1''" failing_server "''{}''" "''42''"]
  have never: "\<forall>i. \<exists>s. status (task_status failing_server status_url i) = Some s
      \<and> s \<noteq> ''SUCCESS''"
    by (simp add: failing_server_def)
  have failed: "status (task_status failing_server status_url 0) = Some ''FAILED''"
    by (simp add: failing_server_def)
  from t never have none: "poll (task_status failing_server status_url) status_url 0 [] = None"
    by blast
  have "''FAILED'' \<noteq> ''PENDING''" "''FAILED'' \<noteq> ''SUCCESS''" by simp_all
  with t failed have again: "poll (task_status failing_server status_url) status_url 0 [] =
      poll (task_status failing_server status_url) status_url (Suc 0) ([] @ [GET status_url])"
    by blast
  have "url underpass_self = Some ''https://raw-data-api0.hotosm.org/v1''"
    "snapshot failing_server (''https://raw-data-api0.hotosm.org/v1'' @ ''/snapshot/'') ''{}''
      = Some ''42''"
    "\<forall>i. \<exists>s. status (task_status failing_server
        (''https://raw-data-api0.hotosm.org/v1'' @ ''/tasks/status/'' @ ''42'') i) = Some s
      \<and> s \<noteq> ''SUCCESS''"
    by (simp_all add: underpass_self_def failing_server_def)
  with t have remote: "queryRemote failing_server underpass_self ''{}'' = None"
    by blast
  from never failed none again remote show ?thesis
    by (intro conjI)
qed

section \<open>Properties of PostgresClient.getFeatures\<close>

lemma local_loop_snoc:
  "local_loop env cursor (qs @ [q]) wkt r =
     (case local_loop env cursor qs wkt r of
        Inl e \<Rightarrow> Inl e
      | Inr (cursor', earlier) \<Rightarrow>
          (case queryLocal env cursor' q wkt of
             Inl e \<Rightarrow> Inl e
           | Inr (cur, features) \<Rightarrow> Inr (Some cur, Some features)))"
  by (induction qs arbitrary: cursor r) (auto split: sum.splits)

text \<open>
  Claim C9. With an open session and more than one source table, the collection is built
  from the features of the last statement only: the earlier statements are executed, for
  their effect on the session, and the features they returned (\<open>earlier\<close>) are
  dropped.
\<close>

theorem getFeatures_last_statement_only:
  assumes "dbshell self \<noteq> None"
    and "data_from data = Some tables"
    and "1 < length tables"
    and "createSQL repr data = Inr sql"
  shows "length sql = length tables
     \<and> getFeatures_collection env repr dumps srv self data poly wkt =
        (case local_loop env (dbcursor self) (butlast sql) wkt None of
           Inl e \<Rightarrow> Some ([], Inl e)
         | Inr (cursor, earlier) \<Rightarrow>
             (case queryLocal env cursor (last sql) wkt of
                Inl e \<Rightarrow> Some ([], Inl e)
              | Inr (cur, features) \<Rightarrow> Some ([], Inr (FeatureCollection features))))"
proof -
  have len: "length sql = length tables"
    using assms(2,4) createSQL_loop_length [of repr data tables "[]" sql]
    by (simp add: createSQL_def)
  with assms(3) have "sql \<noteq> []" by auto
  then have snoc: "butlast sql @ [last sql] = sql" by simp
  have "local_loop env (dbcursor self) (butlast sql @ [last sql]) wkt None =
      (case local_loop env (dbcursor self) (butlast sql) wkt None of
         Inl e \<Rightarrow> Inl e
       | Inr (cursor', earlier) \<Rightarrow>
           (case queryLocal env cursor' (last sql) wkt of
              Inl e \<Rightarrow> Inl e
            | Inr (cur, features) \<Rightarrow> Inr (Some cur, Some features)))"
    by (rule local_loop_snoc)
  then have "local_loop env (dbcursor self) sql wkt None =
      (case local_loop env (dbcursor self) (butlast sql) wkt None of
         Inl e \<Rightarrow> Inl e
       | Inr (cursor', earlier) \<Rightarrow>
           (case queryLocal env cursor' (last sql) wkt of
              Inl e \<Rightarrow> Inl e
            | Inr (cur, features) \<Rightarrow> Inr (Some cur, Some features)))"
    by (simp only: snoc)
  note loop = this
  from assms(1,4) have unfold:
    "getFeatures_collection env repr dumps srv self data poly wkt =
      (case local_loop env (dbcursor self) sql wkt None of
         Inl e \<Rightarrow> Some ([], Inl e)
       | Inr (_, None) \<Rightarrow> Some ([], Inl UnboundLocalError)
       | Inr (_, Some result) \<Rightarrow> Some ([], Inr (FeatureCollection result)))"
    by (simp add: getFeatures_collection_def)
  have "getFeatures_collection env repr dumps srv self data poly wkt =
        (case local_loop env (dbcursor self) (butlast sql) wkt None of
           Inl e \<Rightarrow> Some ([], Inl e)
         | Inr (cursor, earlier) \<Rightarrow>
             (case queryLocal env cursor (last sql) wkt of
                Inl e \<Rightarrow> Some ([], Inl e)
              | Inr (cur, features) \<Rightarrow> Some ([], Inr (FeatureCollection features))))"
  proof (cases "local_loop env (dbcursor self) (butlast sql) wkt None")
    case (Inl e)
    then show ?thesis by (simp only: unfold loop sum.case)
  next
    case (Inr p)
    obtain cursor earlier where p: "p = (cursor, earlier)" by (cases p)
    show ?thesis
    proof (cases "queryLocal env cursor (last sql) wkt")
      case (Inl e)
      with Inr p show ?thesis by (simp only: unfold loop sum.case prod.case)
    next
      case inner: (Inr r)
      obtain cur features where r: "r = (cur, features)" by (cases r)
      from Inr p inner r show ?thesis
        by (simp only: unfold loop sum.case prod.case option.case)
    qed
  qed
  with len show ?thesis by simp
qed

theorem getFeatures_last_statement_only_witness:
  "dbshell local_self \<noteq> None
   \<and> createSQL (\<lambda>xs. []) buildings_schema = Inr [nodes_query, ways_query]
   \<and> queryLocal example_env (Some []) nodes_query example_wkt =
       Inr ([ways_view_sql example_wkt, nodes_view_sql example_wkt, rewrite_query nodes_query],
            [node_feature])
   \<and> getFeatures_collection example_env (\<lambda>xs. []) (\<lambda>d. ''{}'') mock_server local_self
        buildings_schema (JNull :: nat json) example_wkt
      = Some ([], Inr (FeatureCollection [building_feature]))"
  using getFeatures_last_statement_only [of local_self buildings_schema
      "[''nodes'', ''ways_poly'']" "\<lambda>xs. []" "[nodes_query, ways_query]" example_env
      "\<lambda>d. ''{}''" mock_server "JNull :: nat json" example_wkt]
    createSQL_buildings queryLocal_nodes [of "[]" example_wkt]
    queryLocal_ways
  by (simp add: local_self_def buildings_schema_def)

lemma poll_mock:
  "poll (task_status mock_server u) u 0 log =
     Some (3, log @ [GET u, SLEEP 1, GET u, SLEEP 1, GET u],
           Inr \<lparr>status = Some ''SUCCESS'',
                download_url = Some ''https://example.org/export.zip''\<rparr>)"
proof -
  have "poll (task_status mock_server u) u 0 log =
      poll (task_status mock_server u) u (Suc 0) (log @ [GET u, SLEEP 1])"
    by (rule poll_pending) (simp add: mock_server_def)
  also have "\<dots> = poll (task_status mock_server u) u (Suc (Suc 0))
      ((log @ [GET u, SLEEP 1]) @ [GET u, SLEEP 1])"
    by (rule poll_pending) (simp add: mock_server_def)
  also have "\<dots> = Some (Suc (Suc (Suc 0)), ((log @ [GET u, SLEEP 1]) @ [GET u, SLEEP 1]) @ [GET u],
      Inr (task_status mock_server u (Suc (Suc 0))))"
    by (rule poll_success) (simp add: mock_server_def)
  finally show ?thesis by (simp add: mock_server_def numeral_3_eq_3)
qed

lemma mock_snapshot: "snapshot mock_server u body = Some ''42''"
  by (simp add: mock_server_def)

lemma mock_download:
  "download mock_server ''https://example.org/export.zip'' =
     Some (\<lambda>name. if name = ''Export.geojson'' then Some export_bytes else None)"
  by (simp add: mock_server_def)

lemma queryRemote_mock:
  "queryRemote mock_server underpass_self query = Some (mock_log query, Inr export_bytes)"
  by (simp add: queryRemote_def underpass_self_def mock_snapshot poll_mock fetch_export_def
      mock_download mock_log_def status_url_def)

lemma poll_log_prefix:
  assumes "poll responses newurl n log = Some y"
  shows "prefix log (fst (snd y))"
proof (rule poll.raw_induct [where P = "\<lambda>responses newurl n log y. prefix log (fst (snd y))"
      and responses = responses and newurl = newurl and n = n and log = log and y = y])
  fix pl :: "(nat \<Rightarrow> status_json) \<Rightarrow> string \<Rightarrow> nat \<Rightarrow> event list
      \<Rightarrow> (nat \<times> event list \<times> (error + status_json)) option"
    and rs u k lg z
  assume IH: "\<And>rs u k lg z. pl rs u k lg = Some z \<Longrightarrow> prefix lg (fst (snd z))"
  assume body:
    "(case status (rs k) of
        None \<Rightarrow> Some (Suc k, lg @ [GET u], Inl KeyError)
      | Some s \<Rightarrow>
          if s = ''PENDING'' then pl rs u (Suc k) (lg @ [GET u, SLEEP 1])
          else if s = ''SUCCESS'' then Some (Suc k, lg @ [GET u], Inr (rs k))
          else pl rs u (Suc k) (lg @ [GET u])) = Some z"
  show "prefix lg (fst (snd z))"
  proof (cases "status (rs k)")
    case None
    with body show ?thesis by auto
  next
    case (Some s)
    consider (pending) "s = ''PENDING''" | (success) "s \<noteq> ''PENDING''" "s = ''SUCCESS''"
      | (other) "s \<noteq> ''PENDING''" "s \<noteq> ''SUCCESS''"
      by blast
    then show ?thesis
    proof cases
      case pending
      with Some body have "pl rs u (Suc k) (lg @ [GET u, SLEEP 1]) = Some z" by simp
      then have "prefix (lg @ [GET u, SLEEP 1]) (fst (snd z))" by (rule IH)
      then show ?thesis by (rule append_prefixD)
    next
      case success
      with Some body show ?thesis by auto
    next
      case other
      with Some body have "pl rs u (Suc k) (lg @ [GET u]) = Some z" by simp
      then have "prefix (lg @ [GET u]) (fst (snd z))" by (rule IH)
      then show ?thesis by (rule append_prefixD)
    qed
  qed
next
  show "poll responses newurl n log = Some y" by (rule assms)
qed

lemma fetch_export_prefix: "fetch_export srv log result = (log', r) \<Longrightarrow> prefix log log'"
  by (auto simp: fetch_export_def split: option.splits)

lemma fetch_export_content:
  "fetch_export srv log result = (log', Inr content) \<Longrightarrow>
     \<exists>zip_url zfp. download_url result = Some zip_url \<and> download srv zip_url = Some zfp
       \<and> zfp ''Export.geojson'' = Some content
       \<and> log' = log @ [GET zip_url, EXTRACT ''Export.geojson'' ''/tmp/'']"
  by (auto simp: fetch_export_def split: option.splits)

text \<open>A run of queryRemote that returns has posted the query first; one that returns
  bytes has polled a SUCCESS response of the task it submitted and returns the entry
  \<^verbatim>\<open>Export.geojson\<close> of the archive at that response's download URL.\<close>

lemma queryRemote_polled:
  assumes "url self = Some base"
    and "queryRemote srv self query = Some (log, r)"
    and "snapshot srv (base @ ''/snapshot/'') query = Some task_id"
  obtains m lg pr where
    "poll (task_status srv (base @ ''/tasks/status/'' @ task_id))
       (base @ ''/tasks/status/'' @ task_id) 0 [POST (base @ ''/snapshot/'') query]
     = Some (m, lg, pr)"
    and "case pr of Inl e \<Rightarrow> log = lg \<and> r = Inl e
         | Inr result \<Rightarrow> fetch_export srv lg result = (log, r)"
proof (cases "poll (task_status srv (base @ ''/tasks/status/'' @ task_id))
       (base @ ''/tasks/status/'' @ task_id) 0 [POST (base @ ''/snapshot/'') query]")
  case None
  with assms show ?thesis by (simp add: queryRemote_def)
next
  case (Some y)
  obtain m lg pr where y: "y = (m, lg, pr)" by (cases y)
  from assms Some y
  have "case pr of Inl e \<Rightarrow> log = lg \<and> r = Inl e
         | Inr result \<Rightarrow> fetch_export srv lg result = (log, r)"
    by (cases pr) (simp_all add: queryRemote_def)
  with Some y that show ?thesis by simp
qed

lemma queryRemote_posts_first:
  assumes "url self = Some base"
    and "queryRemote srv self query = Some (log, r)"
  shows "\<exists>rest. log = POST (base @ ''/snapshot/'') query # rest"
proof (cases "snapshot srv (base @ ''/snapshot/'') query")
  case None
  with assms show ?thesis by (auto simp: queryRemote_def)
next
  case (Some task_id)
  from assms Some obtain m lg pr where
    polled: "poll (task_status srv (base @ ''/tasks/status/'' @ task_id))
       (base @ ''/tasks/status/'' @ task_id) 0 [POST (base @ ''/snapshot/'') query]
     = Some (m, lg, pr)"
    and rest: "case pr of Inl e \<Rightarrow> log = lg \<and> r = Inl e
         | Inr result \<Rightarrow> fetch_export srv lg result = (log, r)"
    by (rule queryRemote_polled)
  from poll_log_prefix [OF polled] have pre: "prefix [POST (base @ ''/snapshot/'') query] lg"
    by simp
  have "prefix lg log"
  proof (cases pr)
    case (Inl e)
    with rest show ?thesis by simp
  next
    case (Inr result)
    with rest have "fetch_export srv lg result = (log, r)" by simp
    then show ?thesis by (rule fetch_export_prefix)
  qed
  with pre have "prefix [POST (base @ ''/snapshot/'') query] log"
    by (rule prefix_order.trans)
  then show ?thesis unfolding prefix_def by simp
qed

lemma queryRemote_bytes:
  assumes "url self = Some base"
    and "queryRemote srv self query = Some (log, Inr content)"
  obtains task_id k zip_url zfp rest where
    "snapshot srv (base @ ''/snapshot/'') query = Some task_id"
    and "status (task_status srv (base @ ''/tasks/status/'' @ task_id) k) = Some ''SUCCESS''"
    and "download_url (task_status srv (base @ ''/tasks/status/'' @ task_id) k) = Some zip_url"
    and "download srv zip_url = Some zfp"
    and "zfp ''Export.geojson'' = Some content"
    and "log = rest @ [GET (base @ ''/tasks/status/'' @ task_id), GET zip_url,
                      EXTRACT ''Export.geojson'' ''/tmp/'']"
proof (cases "snapshot srv (base @ ''/snapshot/'') query")
  case None
  with assms show ?thesis by (simp add: queryRemote_def)
next
  case (Some task_id)
  let ?u = "base @ ''/tasks/status/'' @ task_id"
  from assms Some obtain m lg pr where
    polled: "poll (task_status srv ?u) ?u 0 [POST (base @ ''/snapshot/'') query]
       = Some (m, lg, pr)"
    and rest: "case pr of Inl e \<Rightarrow> log = lg \<and> Inr content = Inl e
         | Inr result \<Rightarrow> fetch_export srv lg result = (log, Inr content)"
    by (rule queryRemote_polled)
  from rest obtain result where pr: "pr = Inr result"
    and fetched: "fetch_export srv lg result = (log, Inr content)"
    by (cases pr) simp_all
  from poll_returns [OF polled] pr
  have success: "status (task_status srv ?u (m - 1)) = Some ''SUCCESS''"
    and result: "result = task_status srv ?u (m - 1)"
    by (simp_all add: poll_post_def)
  from poll_last_get [OF polled] obtain rest' where lg: "lg = rest' @ [GET ?u]"
    by auto
  from fetch_export_content [OF fetched] obtain zip_url zfp where
    url: "download_url result = Some zip_url" and zip: "download srv zip_url = Some zfp"
    and entry: "zfp ''Export.geojson'' = Some content"
    and log: "log = lg @ [GET zip_url, EXTRACT ''Export.geojson'' ''/tmp/'']"
    by blast
  from log lg have "log = rest' @ [GET ?u, GET zip_url, EXTRACT ''Export.geojson'' ''/tmp/'']"
    by simp
  with Some success url [unfolded result] zip entry that show ?thesis by blast
qed

text \<open>
  Claim C6, as amended. When \<^verbatim>\<open>self.dbshell\<close> is unset, getFeatures does not enter the
  local query path, so nothing is raised by it and the result does not depend on the
  database: it builds the filter document with createJson and gives it to queryRemote,
  whose result is the collection. For an object whose \<^verbatim>\<open>url\<close> and \<^verbatim>\<open>session\<close> are set
  (built for the database name \<^verbatim>\<open>underpass\<close>), a run that returns has posted the document
  to \<^verbatim>\<open><url>/snapshot/\<close> first, and a collection it returns is the entry
  \<^verbatim>\<open>Export.geojson\<close> of the archive at the download URL of a SUCCESS status response of
  the submitted task.
\<close>

theorem getFeatures_without_session:
  assumes "dbshell self = None"
  shows "getFeatures_collection env repr dumps srv self data poly wkt
         = getFeatures_collection env' repr dumps srv self data poly wkt
     \<and> (createJson dumps data poly = Inl e
        \<longrightarrow> getFeatures_collection env repr dumps srv self data poly wkt = Some ([], Inl e))
     \<and> (createJson dumps data poly = Inr request
        \<longrightarrow> getFeatures_collection env repr dumps srv self data poly wkt =
            (case queryRemote srv self request of
               None \<Rightarrow> None
             | Some (log, Inl e) \<Rightarrow> Some (log, Inl e)
             | Some (log, Inr content) \<Rightarrow> Some (log, Inr (RawBytes content))))
     \<and> (createJson dumps data poly = Inr request \<and> url self = Some base
         \<and> getFeatures_collection env repr dumps srv self data poly wkt = Some (events, r)
        \<longrightarrow> (\<exists>rest. events = POST (base @ ''/snapshot/'') request # rest)
            \<and> (\<forall>collection. r = Inr collection \<longrightarrow>
                 (\<exists>task_id k zip_url zfp content rest.
                    collection = RawBytes content
                    \<and> snapshot srv (base @ ''/snapshot/'') request = Some task_id
                    \<and> status (task_status srv (base @ ''/tasks/status/'' @ task_id) k)
                        = Some ''SUCCESS''
                    \<and> download_url (task_status srv (base @ ''/tasks/status/'' @ task_id) k)
                        = Some zip_url
                    \<and> download srv zip_url = Some zfp
                    \<and> zfp ''Export.geojson'' = Some content
                    \<and> events = rest @ [GET (base @ ''/tasks/status/'' @ task_id), GET zip_url,
                                      EXTRACT ''Export.geojson'' ''/tmp/''])))"
proof -
  have remote: "getFeatures_collection env repr dumps srv self data poly wkt =
       (case createJson dumps data poly of
          Inl e \<Rightarrow> Some ([], Inl e)
        | Inr request \<Rightarrow>
            (case queryRemote srv self request of
               None \<Rightarrow> None
             | Some (log, Inl e) \<Rightarrow> Some (log, Inl e)
             | Some (log, Inr content) \<Rightarrow> Some (log, Inr (RawBytes content))))"
    for env :: "('b, 'c) env"
    using assms by (simp add: getFeatures_collection_def)
  have same: "getFeatures_collection env repr dumps srv self data poly wkt
      = getFeatures_collection env' repr dumps srv self data poly wkt"
    by (simp only: remote)
  have json_error: "createJson dumps data poly = Inl e
      \<longrightarrow> getFeatures_collection env repr dumps srv self data poly wkt = Some ([], Inl e)"
    by (simp add: remote)
  have handed: "createJson dumps data poly = Inr request
      \<longrightarrow> getFeatures_collection env repr dumps srv self data poly wkt =
          (case queryRemote srv self request of
             None \<Rightarrow> None
           | Some (log, Inl e) \<Rightarrow> Some (log, Inl e)
           | Some (log, Inr content) \<Rightarrow> Some (log, Inr (RawBytes content)))"
    by (simp add: remote)
  have protocol: "(\<exists>rest. events = POST (base @ ''/snapshot/'') request # rest)
            \<and> (\<forall>collection. r = Inr collection \<longrightarrow>
                 (\<exists>task_id k zip_url zfp content rest.
                    collection = RawBytes content
                    \<and> snapshot srv (base @ ''/snapshot/'') request = Some task_id
                    \<and> status (task_status srv (base @ ''/tasks/status/'' @ task_id) k)
                        = Some ''SUCCESS''
                    \<and> download_url (task_status srv (base @ ''/tasks/status/'' @ task_id) k)
                        = Some zip_url
                    \<and> download srv zip_url = Some zfp
                    \<and> zfp ''Export.geojson'' = Some content
                    \<and> events = rest @ [GET (base @ ''/tasks/status/'' @ task_id), GET zip_url,
                                      EXTRACT ''Export.geojson'' ''/tmp/'']))"
    if json: "createJson dumps data poly = Inr request" and u: "url self = Some base"
      and run: "getFeatures_collection env repr dumps srv self data poly wkt = Some (events, r)"
  proof -
    from json run have run': "(case queryRemote srv self request of
             None \<Rightarrow> None
           | Some (log, Inl e) \<Rightarrow> Some (log, Inl e)
           | Some (log, Inr content) \<Rightarrow> Some (log, Inr (RawBytes content)))
          = Some (events, r)"
      by (simp add: remote)
    then obtain y where q: "queryRemote srv self request = Some y"
      by (cases "queryRemote srv self request") simp_all
    obtain lg qr where y: "y = (lg, qr)" by (cases y)
    from run' q y have events: "lg = events"
      and r: "r = (case qr of Inl e \<Rightarrow> Inl e | Inr content \<Rightarrow> Inr (RawBytes content))"
      by (cases qr; simp)+
    from q y events have q': "queryRemote srv self request = Some (events, qr)" by simp
    have first: "\<exists>rest. events = POST (base @ ''/snapshot/'') request # rest"
      using u q' by (rule queryRemote_posts_first)
    have bytes: "\<exists>task_id k zip_url zfp content rest.
                    collection = RawBytes content
                    \<and> snapshot srv (base @ ''/snapshot/'') request = Some task_id
                    \<and> status (task_status srv (base @ ''/tasks/status/'' @ task_id) k)
                        = Some ''SUCCESS''
                    \<and> download_url (task_status srv (base @ ''/tasks/status/'' @ task_id) k)
                        = Some zip_url
                    \<and> download srv zip_url = Some zfp
                    \<and> zfp ''Export.geojson'' = Some content
                    \<and> events = rest @ [GET (base @ ''/tasks/status/'' @ task_id), GET zip_url,
                                      EXTRACT ''Export.geojson'' ''/tmp/'']"
      if "r = Inr collection" for collection
    proof -
      from that r obtain content where qr: "qr = Inr content"
        and coll: "collection = RawBytes content"
        by (cases qr) simp_all
      from q' qr have "queryRemote srv self request = Some (events, Inr content)" by simp
      with u obtain task_id k zip_url zfp rest where
        f1: "snapshot srv (base @ ''/snapshot/'') request = Some task_id"
        and f2: "status (task_status srv (base @ ''/tasks/status/'' @ task_id) k)
            = Some ''SUCCESS''"
        and f3: "download_url (task_status srv (base @ ''/tasks/status/'' @ task_id) k)
            = Some zip_url"
        and f4: "download srv zip_url = Some zfp"
        and f5: "zfp ''Export.geojson'' = Some content"
        and f6: "events = rest @ [GET (base @ ''/tasks/status/'' @ task_id), GET zip_url,
                      EXTRACT ''Export.geojson'' ''/tmp/'']"
        by (rule queryRemote_bytes)
      show ?thesis
      proof (intro exI conjI)
        show "collection = RawBytes content" by (rule coll)
        show "snapshot srv (base @ ''/snapshot/'') request = Some task_id" by (rule f1)
        show "status (task_status srv (base @ ''/tasks/status/'' @ task_id) k)
            = Some ''SUCCESS''" by (rule f2)
        show "download_url (task_status srv (base @ ''/tasks/status/'' @ task_id) k)
            = Some zip_url" by (rule f3)
        show "download srv zip_url = Some zfp" by (rule f4)
        show "zfp ''Export.geojson'' = Some content" by (rule f5)
        show "events = rest @ [GET (base @ ''/tasks/status/'' @ task_id), GET zip_url,
                      EXTRACT ''Export.geojson'' ''/tmp/'']" by (rule f6)
      qed
    qed
    from first bytes show ?thesis by (intro conjI allI impI)
  qed
  show ?thesis
  proof (intro conjI)
    show "getFeatures_collection env repr dumps srv self data poly wkt
      = getFeatures_collection env' repr dumps srv self data poly wkt" by (rule same)
    show "createJson dumps data poly = Inl e
      \<longrightarrow> getFeatures_collection env repr dumps srv self data poly wkt = Some ([], Inl e)"
      by (rule json_error)
    show "createJson dumps data poly = Inr request
      \<longrightarrow> getFeatures_collection env repr dumps srv self data poly wkt =
          (case queryRemote srv self request of
             None \<Rightarrow> None
           | Some (log, Inl e) \<Rightarrow> Some (log, Inl e)
           | Some (log, Inr content) \<Rightarrow> Some (log, Inr (RawBytes content)))"
      by (rule handed)
    show "createJson dumps data poly = Inr request \<and> url self = Some base
         \<and> getFeatures_collection env repr dumps srv self data poly wkt = Some (events, r)
        \<longrightarrow> (\<exists>rest. events = POST (base @ ''/snapshot/'') request # rest)
            \<and> (\<forall>collection. r = Inr collection \<longrightarrow>
                 (\<exists>task_id k zip_url zfp content rest.
                    collection = RawBytes content
                    \<and> snapshot srv (base @ ''/snapshot/'') request = Some task_id
                    \<and> status (task_status srv (base @ ''/tasks/status/'' @ task_id) k)
                        = Some ''SUCCESS''
                    \<and> download_url (task_status srv (base @ ''/tasks/status/'' @ task_id) k)
                        = Some zip_url
                    \<and> download srv zip_url = Some zfp
                    \<and> zfp ''Export.geojson'' = Some content
                    \<and> events = rest @ [GET (base @ ''/tasks/status/'' @ task_id), GET zip_url,
                                      EXTRACT ''Export.geojson'' ''/tmp/'']))"
      using protocol by blast
  qed
qed

theorem getFeatures_without_session_witness:
  "DatabaseAccess_init (\<lambda>s. None) (\<lambda>c. None) (Some ''localhost'') (Some ''underpass'')
     = Inr underpass_self
   \<and> dbshell underpass_self = None
   \<and> url underpass_self = Some ''https://raw-data-api0.hotosm.org/v1''
   \<and> createJson (\<lambda>d. ''{}'') nodes_relations_schema (JNull :: nat json) = Inr ''{}''
   \<and> getFeatures_collection example_env (\<lambda>xs. []) (\<lambda>d. ''{}'') mock_server underpass_self
        nodes_relations_schema (JNull :: nat json) example_wkt
      = Some (mock_log ''{}'', Inr (RawBytes export_bytes))"
  using getFeatures_without_session [of underpass_self example_env "\<lambda>xs. []" "\<lambda>d. ''{}''"
      mock_server nodes_relations_schema "JNull :: nat json" example_wkt example_env
      KeyError "''{}''" "''https://raw-data-api0.hotosm.org/v1''" "mock_log ''{}''"
      "Inr (RawBytes export_bytes)"]
    queryRemote_mock [of "''{}''"]
  by (simp add: DatabaseAccess_init_def underpass_self_def createJson_def
      createJson_features_def nodes_relations_schema_def)

text \<open>The claim as stated fails: called without a session, the local query path raises
  an AttributeError on line 155, not a ConnectionError; getFeatures, which tests
  \<^verbatim>\<open>self.dbshell\<close> first, returns the export with no error at all for the object built
  for \<^verbatim>\<open>underpass\<close>; and for the object that a failed connection leaves, whose \<^verbatim>\<open>url\<close> was
  never assigned, line 186 raises an AttributeError before any request is sent.\<close>

theorem local_path_without_session_counterexample:
  "queryLocal example_env (dbcursor underpass_self) nodes_query example_wkt = Inl AttributeError
   \<and> queryLocal example_env (dbcursor underpass_self) nodes_query example_wkt
       \<noteq> Inl ConnectionError
   \<and> getFeatures_collection example_env (\<lambda>xs. []) (\<lambda>d. ''{}'') mock_server underpass_self
        nodes_relations_schema (JNull :: nat json) example_wkt
      = Some (mock_log ''{}'', Inr (RawBytes export_bytes))
   \<and> DatabaseAccess_init (\<lambda>s. None) (\<lambda>c. None) (Some ''localhost'') (Some ''osm'')
      = Inr failed_self
   \<and> getFeatures_collection example_env (\<lambda>xs. []) (\<lambda>d. ''{}'') mock_server failed_self
        nodes_relations_schema (JNull :: nat json) example_wkt
      = Some ([], Inl AttributeError)"
  using queryRemote_mock [of "''{}''"]
  by (simp add: queryLocal_def getFeatures_collection_def underpass_self_def createJson_def
      createJson_features_def nodes_relations_schema_def DatabaseAccess_init_def
      failed_self_def queryRemote_def)

section \<open>Properties of the Overpass query\<close>

lemma poly_loop_tokens:
  "poly_loop str lat lon index poly =
     poly @ concat (map (\<lambda>i. str (lon ! i) @ '' '' @ str (lat ! i) @ '' '') [index..<length lat])"
proof (induction str lat lon index poly rule: poly_loop.induct)
  case (1 str lat lon index poly)
  show ?case
  proof (cases "index < length lat")
    case True
    then have "poly_loop str lat lon index poly =
        poly_loop str lat lon (index + 1)
          (poly @ str (lon ! index) @ '' '' @ str (lat ! index) @ '' '')"
      by (subst poly_loop.simps) simp
    also have "\<dots> = (poly @ str (lon ! index) @ '' '' @ str (lat ! index) @ '' '')
        @ concat (map (\<lambda>i. str (lon ! i) @ '' '' @ str (lat ! i) @ '' '')
            [index + 1..<length lat])"
      using True by (rule "1.IH")
    also have "\<dots> = poly @ concat (map (\<lambda>i. str (lon ! i) @ '' '' @ str (lat ! i) @ '' '')
        (index # [index + 1..<length lat]))"
      by simp
    also have "index # [index + 1..<length lat] = [index..<length lat]"
      using True by (simp add: upt_conv_Cons)
    finally show ?thesis .
  next
    case False
    then have "poly_loop str lat lon index poly = poly"
      by (subst poly_loop.simps) simp
    with False show ?thesis by simp
  qed
qed

lemma map_ring_indices:
  "map (\<lambda>i. str (map snd ring ! i) @ '' '' @ str (map fst ring ! i) @ '' '') [0..<length ring]
     = map (\<lambda>(x, y). str y @ '' '' @ str x @ '' '') ring"
  by (rule nth_equalityI) (simp_all add: split_beta)

lemma join_tokens_Cons: "ts \<noteq> [] \<Longrightarrow> join_tokens (t # ts) = t @ '' '' @ join_tokens ts"
  by (cases ts) simp_all

lemma concat_tokens:
  "ts \<noteq> [] \<Longrightarrow> concat (map (\<lambda>t. t @ '' '') ts) = join_tokens ts @ '' ''"
  by (induction ts rule: join_tokens.induct) simp_all

lemma ring_tokens:
  "concat (map (\<lambda>(x, y). str y @ '' '' @ str x @ '' '') ring)
     = concat (map (\<lambda>t. t @ '' '') (concat (map (\<lambda>(x, y). [str y, str x]) ring)))"
  by (induction ring) auto

lemma poly_trimmed:
  "drop_last 1 (concat (map (\<lambda>(x, y). str y @ '' '' @ str x @ '' '') ring))
     = join_tokens (concat (map (\<lambda>(x, y). [str y, str x]) ring))"
proof (cases ring)
  case Nil
  then show ?thesis by (simp add: drop_last_def)
next
  case (Cons p ps)
  then have "concat (map (\<lambda>(x, y). [str y, str x]) ring) \<noteq> []"
    by (auto simp: split_beta)
  then have "concat (map (\<lambda>t. t @ '' '') (concat (map (\<lambda>(x, y). [str y, str x]) ring)))
      = join_tokens (concat (map (\<lambda>(x, y). [str y, str x]) ring)) @ '' ''"
    by (rule concat_tokens)
  then have "concat (map (\<lambda>(x, y). str y @ '' '' @ str x @ '' '') ring)
      = join_tokens (concat (map (\<lambda>(x, y). [str y, str x]) ring)) @ '' ''"
    by (simp only: ring_tokens)
  then show ?thesis
    by (simp add: drop_last_suffix)
qed

lemma overpass_query_tokens:
  "overpass_query str ring =
     ''[out:json];way['' @ dquote @ ''building'' @ dquote @ ''](poly:'' @ dquote
       @ join_tokens (concat (map (\<lambda>(x, y). [str y, str x]) ring))
       @ dquote @ '');(._;>;);out body geom;''"
proof -
  have "poly_loop str (map fst ring) (map snd ring) 0 []
      = concat (map (\<lambda>(x, y). str y @ '' '' @ str x @ '' '') ring)"
    using poly_loop_tokens [of str "map fst ring" "map snd ring" 0 "[]"]
      map_ring_indices [of str ring]
    by simp
  then show ?thesis
    by (simp only: overpass_query_def Let_def poly_trimmed)
qed

text \<open>
  Claim C7, as amended. The query embeds the ring, a list of (longitude, latitude) pairs,
  as the tokens \<^verbatim>\<open>lat lon lat lon ...\<close> in ring order, the latitude first in each pair,
  separated by single spaces with none after the last, inside
  \<^verbatim>\<open>way["building"](poly:"...")\<close>.
\<close>

theorem overpass_query_latitude_first:
  "overpass_query str ring =
     ''[out:json];way['' @ dquote @ ''building'' @ dquote @ ''](poly:'' @ dquote
       @ join_tokens (concat (map (\<lambda>(lon, lat). [str lat, str lon]) ring))
       @ dquote @ '');(._;>;);out body geom;''"
  by (rule overpass_query_tokens)

theorem overpass_query_latitude_first_witness:
  "overpass_query (\<lambda>s. s) example_ring =
     ''[out:json];way['' @ dquote @ ''building'' @ dquote @ ''](poly:'' @ dquote
       @ ''50 10 50 11 51 11 50 10'' @ dquote @ '');(._;>;);out body geom;''"
  using overpass_query_latitude_first [of "\<lambda>s. s" example_ring]
  by (simp add: example_ring_def)

text \<open>The claim as stated fails: line 270 names the array of the \<open>x\<close> \<^verbatim>\<open>lat\<close> and the
  array of the \<open>y\<close> \<^verbatim>\<open>lon\<close>, so line 273 writes the latitude first.\<close>

theorem overpass_query_longitude_first_counterexample:
  "lon_lat_query (\<lambda>s. s) example_ring =
     ''[out:json];way['' @ dquote @ ''building'' @ dquote @ ''](poly:'' @ dquote
       @ ''10 50 11 50 11 51 10 50'' @ dquote @ '');(._;>;);out body geom;''
   \<and> overpass_query (\<lambda>s. s) example_ring \<noteq> lon_lat_query (\<lambda>s. s) example_ring"
  by (simp add: overpass_query_tokens lon_lat_query_def example_ring_def)

end
